theory Spec2Isabelle
  imports Complex_Main
begin

section \<open>SMS balance monitor: the notification rate limiter\<close>

text \<open>
  A shallow embedding of \<^verbatim>\<open>sms-balance-monitor.js\<close> and of the parts of
  \<^verbatim>\<open>config.js\<close> and \<^verbatim>\<open>providers/\<close> that decide whether the monitor starts.

  Conventions of the embedding:
  \<^item> A JavaScript number that is a time stamp, a counter or a configured integer
    (\<^verbatim>\<open>Date.now()\<close>, \<^verbatim>\<open>parseInt(..)\<close>) is an \<open>int\<close> or a \<open>nat\<close>. A balance
    (\<^verbatim>\<open>Number(response.data.balance)\<close>) is a \<open>real\<close> or \<^verbatim>\<open>NaN\<close>, which is what
    \<^verbatim>\<open>Number\<close> makes of an answer that is not numeric; the infinities are not values
    of the model, and arithmetic on balances is exact.
  \<^item> A field that holds \<^verbatim>\<open>null\<close> or a number is an \<open>option\<close>. The state file, when
    it parses, holds an object whose fields have the types of \<^verbatim>\<open>defaultState\<close>.
  \<^item> The module-level constants read from \<^verbatim>\<open>config.js\<close> are passed as a record.
  \<^item> The file system, the log and the provider's network calls are an explicit world:
    the content of the state file, the error (if any) that writing it raises, and the
    chronological list of the effects performed so far.
\<close>

subsection \<open>Numbers\<close>

text \<open>
  A balance, with the comparisons and the arithmetic the script applies to it: every
  comparison with \<^verbatim>\<open>NaN\<close> is false, and every difference and absolute value of
  \<^verbatim>\<open>NaN\<close> is \<^verbatim>\<open>NaN\<close>.
\<close>

datatype jsnum = Num real | NaN

fun js_le :: "jsnum \<Rightarrow> jsnum \<Rightarrow> bool" where
  "js_le (Num a) (Num b) = (a \<le> b)"
| "js_le x y = False"

fun js_lt :: "jsnum \<Rightarrow> jsnum \<Rightarrow> bool" where
  "js_lt (Num a) (Num b) = (a < b)"
| "js_lt x y = False"

fun js_gt :: "jsnum \<Rightarrow> jsnum \<Rightarrow> bool" where
  "js_gt (Num a) (Num b) = (a > b)"
| "js_gt x y = False"

fun js_minus :: "jsnum \<Rightarrow> jsnum \<Rightarrow> jsnum" where
  "js_minus (Num a) (Num b) = Num (a - b)"
| "js_minus x y = NaN"

fun js_abs :: "jsnum \<Rightarrow> jsnum" where
  "js_abs (Num a) = Num \<bar>a\<bar>"
| "js_abs NaN = NaN"

text \<open>A configured integer as a number.\<close>

definition ofInt :: "int \<Rightarrow> jsnum" where
  "ofInt i = Num (of_int i)"

subsection \<open>Configuration and state\<close>

record config =
  threshold :: int
  checkInterval :: int
  notificationCooldown :: int
  maxConsecutiveNotifications :: int
  balanceChangeThreshold :: int
  recipients :: "string list"
  providerName :: string

text \<open>The object \<^verbatim>\<open>defaultState\<close> fixes the fields and their types.\<close>

record monitor_state =
  lastNotificationTime :: "int option"
  consecutiveNotificationCount :: nat
  lastKnownBalance :: "jsnum option"
  lastCheckTime :: "int option"
  totalChecks :: nat
  totalNotifications :: nat

definition defaultState :: monitor_state where
  "defaultState =
     \<lparr> lastNotificationTime = None,
       consecutiveNotificationCount = 0,
       lastKnownBalance = None,
       lastCheckTime = None,
       totalChecks = 0,
       totalNotifications = 0 \<rparr>"

text \<open>
  The JSON object in the state file: every key may be missing (outer \<open>None\<close>), and a
  key that is present holds \<^verbatim>\<open>null\<close> or a number. JSON has no \<^verbatim>\<open>NaN\<close>.
\<close>

record stored_state =
  j_lastNotificationTime :: "int option option"
  j_consecutiveNotificationCount :: "nat option"
  j_lastKnownBalance :: "real option option"
  j_lastCheckTime :: "int option option"
  j_totalChecks :: "nat option"
  j_totalNotifications :: "nat option"

datatype file_content =
    Absent
  | Unreadable string
  | Content stored_state

subsection \<open>Effects\<close>

datatype level = INFO | WARN | ERROR

text \<open>
  One constructor per message template of the script; the arguments are the values the
  template interpolates.
\<close>

datatype log_message =
    LoadError string
  | SaveError string
  | BalanceRecovered jsnum
  | NotificationSent string nat int jsnum
  | SendFailed string
  | NotificationSkipped jsnum string
  | BalanceCheck "jsnum option" int
  | NullBalance
  | CheckFailed string

text \<open>The alert text: the balance and the notification number.\<close>

datatype sms = LowBalanceAlert jsnum nat

datatype event =
    EvLog level log_message
  | EvSave monitor_state
  | EvFetch
  | EvSend "string list" sms

record world =
  stateFile :: file_content
  writeError :: "string option"
  trace :: "event list"

definition emit :: "event \<Rightarrow> world \<Rightarrow> world" where
  "emit e w = w\<lparr>trace := trace w @ [e]\<rparr>"

definition log_msg :: "log_message \<Rightarrow> level \<Rightarrow> world \<Rightarrow> world" where
  "log_msg m l w = emit (EvLog l m) w"

subsection \<open>State store\<close>

text \<open>\<^verbatim>\<open>{ ...defaultState, ...state }\<close>: a key of the file wins over the default.\<close>

definition merge_defaults :: "stored_state \<Rightarrow> monitor_state" where
  "merge_defaults j =
     \<lparr> lastNotificationTime =
         (case j_lastNotificationTime j of None \<Rightarrow> lastNotificationTime defaultState | Some v \<Rightarrow> v),
       consecutiveNotificationCount =
         (case j_consecutiveNotificationCount j of
            None \<Rightarrow> consecutiveNotificationCount defaultState | Some v \<Rightarrow> v),
       lastKnownBalance =
         (case j_lastKnownBalance j of
            None \<Rightarrow> lastKnownBalance defaultState | Some v \<Rightarrow> map_option Num v),
       lastCheckTime =
         (case j_lastCheckTime j of None \<Rightarrow> lastCheckTime defaultState | Some v \<Rightarrow> v),
       totalChecks =
         (case j_totalChecks j of None \<Rightarrow> totalChecks defaultState | Some v \<Rightarrow> v),
       totalNotifications =
         (case j_totalNotifications j of None \<Rightarrow> totalNotifications defaultState | Some v \<Rightarrow> v) \<rparr>"

text \<open>
  \<^verbatim>\<open>JSON.stringify(state, null, 2)\<close>: all six keys are written, and \<^verbatim>\<open>NaN\<close> is
  written as \<^verbatim>\<open>null\<close>.
\<close>

definition jsonNumber :: "jsnum option \<Rightarrow> real option" where
  "jsonNumber v = (case v of None \<Rightarrow> None | Some (Num r) \<Rightarrow> Some r | Some NaN \<Rightarrow> None)"

definition stringify :: "monitor_state \<Rightarrow> stored_state" where
  "stringify s =
     \<lparr> j_lastNotificationTime = Some (lastNotificationTime s),
       j_consecutiveNotificationCount = Some (consecutiveNotificationCount s),
       j_lastKnownBalance = Some (jsonNumber (lastKnownBalance s)),
       j_lastCheckTime = Some (lastCheckTime s),
       j_totalChecks = Some (totalChecks s),
       j_totalNotifications = Some (totalNotifications s) \<rparr>"

text \<open>
  \<^verbatim>\<open>loadState\<close>: a missing file gives the defaults silently; a file that cannot be
  read or parsed is logged and gives the defaults.
\<close>

definition loadState :: "world \<Rightarrow> monitor_state \<times> world" where
  "loadState w =
     (case stateFile w of
        Absent \<Rightarrow> (defaultState, w)
      | Unreadable msg \<Rightarrow> (defaultState, log_msg (LoadError msg) ERROR w)
      | Content j \<Rightarrow> (merge_defaults j, w))"

text \<open>
  \<^verbatim>\<open>saveState\<close>: the call is recorded in the trace; a failed write is logged and
  leaves the file as it was.
\<close>

definition saveState :: "monitor_state \<Rightarrow> world \<Rightarrow> world" where
  "saveState s w =
     (let w1 = emit (EvSave s) w in
      case writeError w1 of
        None \<Rightarrow> w1\<lparr>stateFile := Content (stringify s)\<rparr>
      | Some msg \<Rightarrow> log_msg (SaveError msg) ERROR w1)"

subsection \<open>Rendering integers in message templates\<close>

text \<open>
  A template literal \<^verbatim>\<open>${n}\<close> with an integer \<open>n\<close> prints its decimal digits, with
  a minus sign in front of a negative one.
\<close>

definition digit :: "nat \<Rightarrow> char" where
  "digit d = ''0123456789'' ! d"

function decimal :: "nat \<Rightarrow> string" where
  "decimal n = (if n div 10 = 0 then [digit n] else decimal (n div 10) @ [digit (n mod 10)])"
  by pat_completeness auto
termination
  by (relation "measure (\<lambda>n. n)") auto

declare decimal.simps [simp del]

definition numberToString :: "int \<Rightarrow> string" where
  "numberToString i = (if 0 \<le> i then decimal (nat i) else CHR ''-'' # decimal (nat (- i)))"

subsection \<open>Notification logic\<close>

text \<open>
  What JavaScript does with a field that holds \<^verbatim>\<open>null\<close> or a number: in a
  condition \<^verbatim>\<open>null\<close> and \<open>0\<close> are falsy, and in arithmetic \<^verbatim>\<open>null\<close> counts as \<open>0\<close>.
\<close>

definition truthyNumber :: "int option \<Rightarrow> bool" where
  "truthyNumber v = (case v of None \<Rightarrow> False | Some t \<Rightarrow> t \<noteq> 0)"

definition toNumber :: "int option \<Rightarrow> int" where
  "toNumber v = (case v of None \<Rightarrow> 0 | Some x \<Rightarrow> x)"

definition toJsnum :: "jsnum option \<Rightarrow> jsnum" where
  "toJsnum v = (case v of None \<Rightarrow> Num 0 | Some x \<Rightarrow> x)"

text \<open>
  \<^verbatim>\<open>shouldSendNotification(now, balance, state)\<close> returns the answer, the state
  object as it leaves it (the recovery branch mutates its argument) and the world.
\<close>

definition shouldSendNotification ::
  "config \<Rightarrow> int \<Rightarrow> jsnum \<Rightarrow> monitor_state \<Rightarrow> world \<Rightarrow> bool \<times> monitor_state \<times> world" where
  "shouldSendNotification cfg now balance state w =
     (if js_gt balance (ofInt (threshold cfg)) then
        (if consecutiveNotificationCount state > 0 then
           (let w1 = log_msg (BalanceRecovered balance) INFO w;
                state1 = state\<lparr>consecutiveNotificationCount := 0, lastKnownBalance := Some balance\<rparr>
            in (False, state1, saveState state1 w1))
         else (False, state, w))
      else if int (consecutiveNotificationCount state) \<ge> maxConsecutiveNotifications cfg then
        (False, state, w)
      else if consecutiveNotificationCount state = 0 then
        (True, state, w)
      else if truthyNumber (lastNotificationTime state) \<and>
              now - toNumber (lastNotificationTime state) < notificationCooldown cfg then
        (False, state, w)
      else if lastKnownBalance state \<noteq> None \<and>
              js_lt (js_abs (js_minus balance (toJsnum (lastKnownBalance state))))
                (ofInt (balanceChangeThreshold cfg)) then
        (False, state, w)
      else (True, state, w))"

definition getSkipReason :: "config \<Rightarrow> int \<Rightarrow> jsnum \<Rightarrow> monitor_state \<Rightarrow> string" where
  "getSkipReason cfg now balance state =
     (if js_gt balance (ofInt (threshold cfg)) then ''Balance above threshold''
      else if int (consecutiveNotificationCount state) \<ge> maxConsecutiveNotifications cfg then
        ''Max consecutive notifications reached ('' @
          numberToString (maxConsecutiveNotifications cfg) @ '')''
      else if consecutiveNotificationCount state = 0 then ''Unknown (should not happen)''
      else if truthyNumber (lastNotificationTime state) \<and>
              now - toNumber (lastNotificationTime state) < notificationCooldown cfg then
        (let minutesRemaining =
               \<lceil>(of_int (notificationCooldown cfg - (now - toNumber (lastNotificationTime state)))
                    :: real) / 60000\<rceil>
         in ''Within cooldown period ('' @ numberToString minutesRemaining @
              '' minutes remaining)'')
      else if lastKnownBalance state \<noteq> None \<and>
              js_lt (js_abs (js_minus balance (toJsnum (lastKnownBalance state))))
                (ofInt (balanceChangeThreshold cfg)) then
        ''Balance change too small (< '' @ numberToString (balanceChangeThreshold cfg) @ '' units)''
      else ''Unknown'')"

text \<open>
  What the environment answers during one poll cycle: the two readings of
  \<^verbatim>\<open>Date.now()\<close> (in \<^verbatim>\<open>checkSMSBalance\<close> and in \<^verbatim>\<open>alertLowSMSBalance\<close>), the
  outcome of \<^verbatim>\<open>SMSProvider.checkBalance()\<close> (an exception, or a value that may be
  \<^verbatim>\<open>null\<close>/\<^verbatim>\<open>undefined\<close> or \<^verbatim>\<open>NaN\<close>) and the outcome of
  \<^verbatim>\<open>SMSProvider.sendSMS(..)\<close>.
\<close>

datatype fetch_result = FetchThrows string | FetchReturned "jsnum option"

datatype send_result = SendOk | SendThrows string

record cycle_input =
  clockCheck :: int
  clockAlert :: int
  fetchResult :: fetch_result
  sendResult :: send_result

definition alertLowSMSBalance :: "config \<Rightarrow> cycle_input \<Rightarrow> jsnum \<Rightarrow> world \<Rightarrow> world" where
  "alertLowSMSBalance cfg inp balance w =
     (let now = clockAlert inp;
          (state, w1) = loadState w;
          (send, state1, w2) = shouldSendNotification cfg now balance state w1
      in if send then
           (let notificationNumber = consecutiveNotificationCount state1 + 1;
                message = LowBalanceAlert balance notificationNumber;
                w3 = emit (EvSend (recipients cfg) message) w2
            in case sendResult inp of
                 SendThrows msg \<Rightarrow> log_msg (SendFailed msg) ERROR w3
               | SendOk \<Rightarrow>
                   (let state2 = state1
                          \<lparr> lastNotificationTime := Some now,
                            consecutiveNotificationCount := consecutiveNotificationCount state1 + 1,
                            lastKnownBalance := Some balance,
                            totalNotifications := totalNotifications state1 + 1 \<rparr>;
                        w4 = saveState state2 w3
                    in log_msg (NotificationSent (providerName cfg) notificationNumber
                                  (maxConsecutiveNotifications cfg) balance) WARN w4))
         else
           log_msg (NotificationSkipped balance (getSkipReason cfg now balance state1)) INFO w2)"

subsection \<open>Main monitoring logic\<close>

definition checkSMSBalance :: "config \<Rightarrow> cycle_input \<Rightarrow> world \<Rightarrow> world" where
  "checkSMSBalance cfg inp w =
     (let (state0, w1) = loadState w;
          state = state0\<lparr>totalChecks := totalChecks state0 + 1,
                         lastCheckTime := Some (clockCheck inp)\<rparr>;
          w2 = saveState state w1;
          w3 = emit EvFetch w2
      in case fetchResult inp of
           FetchThrows msg \<Rightarrow> log_msg (CheckFailed msg) ERROR w3
         | FetchReturned r \<Rightarrow>
             (let w4 = log_msg (BalanceCheck r (threshold cfg)) INFO w3
              in case r of
                   None \<Rightarrow> log_msg NullBalance WARN w4
                 | Some balance \<Rightarrow>
                     if js_le balance (ofInt (threshold cfg))
                     then alertLowSMSBalance cfg inp balance w4
                     else if consecutiveNotificationCount state > 0 then
                       (let w5 = log_msg (BalanceRecovered balance) INFO w4
                        in saveState (state\<lparr>consecutiveNotificationCount := 0,
                                            lastKnownBalance := Some balance\<rparr>) w5)
                     else saveState (state\<lparr>lastKnownBalance := Some balance\<rparr>) w4))"

text \<open>
  \<^verbatim>\<open>startMonitoring\<close> calls \<^verbatim>\<open>checkSMSBalance\<close> once immediately and then from
  \<^verbatim>\<open>setInterval\<close>. A cycle never throws, and it is taken to be over before the next
  tick of the timer, so the calls simply follow each other. The list holds what the
  environment answers in each cycle.
\<close>

fun monitoring :: "config \<Rightarrow> cycle_input list \<Rightarrow> world \<Rightarrow> world" where
  "monitoring cfg [] w = w"
| "monitoring cfg (inp # inps) w = monitoring cfg inps (checkSMSBalance cfg inp w)"

text \<open>The state a reader of the state file finds.\<close>

definition persisted :: "world \<Rightarrow> monitor_state" where
  "persisted w = fst (loadState w)"

text \<open>
  The outcome of the \<^verbatim>\<open>if\<close> in \<^verbatim>\<open>alertLowSMSBalance\<close>: a notification, or a
  skip with the reason that is logged.
\<close>

datatype decision = Send | Skip string

definition decide :: "config \<Rightarrow> int \<Rightarrow> jsnum \<Rightarrow> monitor_state \<Rightarrow> world \<Rightarrow> decision" where
  "decide cfg now balance state w =
     (let (send, state1, w1) = shouldSendNotification cfg now balance state w
      in if send then Send else Skip (getSkipReason cfg now balance state1))"

text \<open>The notifications handed to the provider so far, oldest first.\<close>

fun sent :: "event list \<Rightarrow> (string list \<times> sms) list" where
  "sent [] = []"
| "sent (EvSend rs m # es) = (rs, m) # sent es"
| "sent (e # es) = sent es"

text \<open>The effects other than log lines, oldest first.\<close>

fun effects :: "event list \<Rightarrow> event list" where
  "effects [] = []"
| "effects (EvLog l m # es) = effects es"
| "effects (e # es) = e # effects es"

subsection \<open>The first statements of a poll cycle\<close>

text \<open>
  \<^verbatim>\<open>checkSMSBalance\<close> begins in the same way whatever the provider answers: the state
  is loaded, the check is counted and time-stamped, the state is saved, and the provider
  is asked. \<open>counted\<close> is the state object after the two assignments and \<open>fetched\<close> is
  the world when \<^verbatim>\<open>checkBalance()\<close> has been called.
\<close>

definition counted :: "cycle_input \<Rightarrow> monitor_state \<Rightarrow> monitor_state" where
  "counted inp s = s\<lparr>totalChecks := totalChecks s + 1, lastCheckTime := Some (clockCheck inp)\<rparr>"

definition fetched :: "cycle_input \<Rightarrow> world \<Rightarrow> world" where
  "fetched inp w = emit EvFetch (saveState (counted inp (persisted w)) (snd (loadState w)))"

subsection \<open>Reachable worlds\<close>

text \<open>
  The worlds the monitor can be in: it starts without a state file and runs poll cycles;
  a cycle may be under way, with the check counted and the provider asked; and the disk
  may start or stop failing between two cycles.
\<close>

definition freshWorld :: world where
  "freshWorld = \<lparr> stateFile = Absent, writeError = None, trace = [] \<rparr>"

inductive reachable :: "config \<Rightarrow> world \<Rightarrow> bool" for cfg :: config where
  start: "reachable cfg freshWorld"
| cycle: "reachable cfg w \<Longrightarrow> reachable cfg (checkSMSBalance cfg inp w)"
| under_way: "reachable cfg w \<Longrightarrow> reachable cfg (fetched inp w)"
| disk: "reachable cfg w \<Longrightarrow> reachable cfg (w\<lparr>writeError := e\<rparr>)"

subsection \<open>Configuration and start-up\<close>

text \<open>
  \<^verbatim>\<open>process.env\<close> maps a variable to a string or to \<^verbatim>\<open>undefined\<close>. An object of
  \<^verbatim>\<open>config.js\<close> maps a key to a string or to \<^verbatim>\<open>undefined\<close> as well. Both
  \<^verbatim>\<open>undefined\<close> and the empty string are falsy.
\<close>

type_synonym env = "string \<Rightarrow> string option"

definition truthy :: "string option \<Rightarrow> bool" where
  "truthy v = (case v of None \<Rightarrow> False | Some s \<Rightarrow> s \<noteq> [])"

text \<open>\<^verbatim>\<open>a || b\<close>\<close>

definition js_or :: "string option \<Rightarrow> string option \<Rightarrow> string option" where
  "js_or a b = (if truthy a then a else b)"

definition SMS_PROVIDER :: "env \<Rightarrow> string" where
  "SMS_PROVIDER e =
     (case js_or (e ''SMS_PROVIDER'') (Some ''deywuro'') of Some s \<Rightarrow> s | None \<Rightarrow> [])"

definition DEYWURO_CONFIG :: "env \<Rightarrow> string \<Rightarrow> string option" where
  "DEYWURO_CONFIG e =
     (\<lambda>k. None)
       (''balanceUrl'' := js_or (e ''SMS_URL'') (e ''SMS_BALANCE_URL''),
        ''sendUrl'' := js_or (e ''SMS_SEND_URL'') (Some ''https://deywuro.com/api/sms''),
        ''username'' := e ''SMS_USERNAME'',
        ''password'' := e ''SMS_PASSWORD'',
        ''source'' := js_or (e ''SMS_SOURCE'') (Some ''ZIPPY''))"

text \<open>
  The values of \<^verbatim>\<open>MONITOR_CONFIG\<close> when no environment variable overrides them,
  with the class name of the only provider.
\<close>

definition defaultConfig :: "string list \<Rightarrow> config" where
  "defaultConfig rs =
     \<lparr> threshold = 700,
       checkInterval = 5 * 60 * 1000,
       notificationCooldown = 30 * 60 * 1000,
       maxConsecutiveNotifications = 4,
       balanceChangeThreshold = 10,
       recipients = rs,
       providerName = ''DeywuroProvider'' \<rparr>"

text \<open>\<^verbatim>\<open>s.split(',')\<close> never returns the empty array.\<close>

fun split_comma :: "string \<Rightarrow> string list" where
  "split_comma [] = [[]]"
| "split_comma (c # cs) =
     (if c = CHR '','' then [] # split_comma cs
      else (case split_comma cs of [] \<Rightarrow> [[c]] | r # rs \<Rightarrow> (c # r) # rs))"

text \<open>\<^verbatim>\<open>r.trim()\<close>, for the ASCII white space.\<close>

definition whitespace :: "char \<Rightarrow> bool" where
  "whitespace c = (c \<in> set [CHR '' '', CHR 0x09, CHR 0x0A, CHR 0x0B, CHR 0x0C, CHR 0x0D])"

definition trim :: "string \<Rightarrow> string" where
  "trim s = rev (dropWhile whitespace (rev (dropWhile whitespace s)))"

definition ALERT_CONFIG_recipients :: "env \<Rightarrow> string list" where
  "ALERT_CONFIG_recipients e =
     (if truthy (e ''SMS_ALERT_RECIPIENTS'')
      then (case e ''SMS_ALERT_RECIPIENTS'' of Some s \<Rightarrow> map trim (split_comma s) | None \<Rightarrow> [[]])
      else [[]])"

text \<open>\<^verbatim>\<open>xs.join(sep)\<close>\<close>

fun join :: "string \<Rightarrow> string list \<Rightarrow> string" where
  "join sep [] = []"
| "join sep [x] = x"
| "join sep (x # y # ys) = x @ sep @ join sep (y # ys)"

text \<open>The list \<^verbatim>\<open>errors\<close> that \<^verbatim>\<open>validateConfig\<close> of \<^verbatim>\<open>config.js\<close> collects.\<close>

definition config_errors :: "env \<Rightarrow> string list" where
  "config_errors e =
     (if SMS_PROVIDER e = ''deywuro'' then
        (if \<not> truthy (DEYWURO_CONFIG e ''balanceUrl'')
         then [''SMS_URL or SMS_BALANCE_URL is required for Deywuro provider''] else []) @
        (if \<not> truthy (DEYWURO_CONFIG e ''username'')
         then [''SMS_USERNAME is required for Deywuro provider''] else []) @
        (if \<not> truthy (DEYWURO_CONFIG e ''password'')
         then [''SMS_PASSWORD is required for Deywuro provider''] else [])
      else
        [''Unknown SMS provider: '' @ SMS_PROVIDER e @ ''. Available providers: deywuro'']) @
     (if length (ALERT_CONFIG_recipients e) = 0
      then [''At least one SMS_ALERT_RECIPIENTS is required''] else [])"

text \<open>\<^verbatim>\<open>validateConfig\<close> throws (left) when the list is not empty.\<close>

definition validateConfig :: "env \<Rightarrow> string + unit" where
  "validateConfig e =
     (let errors = config_errors e in
      if length errors > 0
      then Inl (''Configuration errors:'' @ [CHR 0x0A] @
                join [CHR 0x0A] (map (\<lambda>x. ''  - '' @ x) errors))
      else Inr ())"

text \<open>
  \<^verbatim>\<open>getProviderConfig\<close>: the only key of \<^verbatim>\<open>configMap\<close> is \<^verbatim>\<open>deywuro\<close>.
\<close>

definition getProviderConfig :: "env \<Rightarrow> string \<Rightarrow> (string \<Rightarrow> string option) option" where
  "getProviderConfig e providerName' =
     (if providerName' = ''deywuro'' then Some (DEYWURO_CONFIG e) else None)"

text \<open>The constructor of \<^verbatim>\<open>DeywuroProvider\<close> runs the provider's own \<^verbatim>\<open>validateConfig\<close>.\<close>

definition DeywuroProvider :: "(string \<Rightarrow> string option) \<Rightarrow> string + (string \<Rightarrow> string option)" where
  "DeywuroProvider c =
     (let required = [''balanceUrl'', ''sendUrl'', ''username'', ''password''];
          missing = filter (\<lambda>key. \<not> truthy (c key)) required
      in if length missing > 0
         then Inl (''Deywuro provider missing required config: '' @ join '', '' missing)
         else Inr c)"

text \<open>
  \<^verbatim>\<open>providerRegistry.getProvider\<close> on the fresh registry (nothing cached yet), where
  \<^verbatim>\<open>deywuro\<close> is the only registered provider.
\<close>

definition getProvider ::
  "string \<Rightarrow> (string \<Rightarrow> string option) \<Rightarrow> string + (string \<Rightarrow> string option)" where
  "getProvider providerName' c =
     (if providerName' \<noteq> ''deywuro'' then
        Inl (''SMS provider '' @ [CHR 0x27] @ providerName' @ [CHR 0x27] @
             '' is not registered. Available providers: deywuro'')
      else (case DeywuroProvider c of
              Inl msg \<Rightarrow>
                Inl (''Failed to initialize SMS provider '' @ [CHR 0x27] @ providerName' @
                     [CHR 0x27] @ '': '' @ msg)
            | Inr p \<Rightarrow> Inr p))"

text \<open>
  The top level of the script up to the call of \<^verbatim>\<open>startMonitoring\<close>: the provider is
  initialised, then the configuration is validated; either failure prints one line and
  calls \<^verbatim>\<open>process.exit(1)\<close>. Otherwise polling starts with the recipients of
  \<^verbatim>\<open>ALERT_CONFIG\<close>.
\<close>

datatype startup_result =
    Exited nat string
  | Polling "string list"

definition startup :: "env \<Rightarrow> startup_result" where
  "startup e =
     (case (case getProviderConfig e (SMS_PROVIDER e) of
              None \<Rightarrow>
                Inl (''No configuration found for provider '' @ [CHR 0x27] @ SMS_PROVIDER e @
                     [CHR 0x27] @ ''. Available providers: deywuro'')
            | Some providerConfig \<Rightarrow> getProvider (SMS_PROVIDER e) providerConfig) of
        Inl msg \<Rightarrow> Exited 1 (''Failed to initialize SMS provider: '' @ msg)
      | Inr provider \<Rightarrow>
          (case validateConfig e of
             Inl msg \<Rightarrow> Exited 1 (''Configuration error: '' @ msg)
           | Inr u \<Rightarrow> Polling (ALERT_CONFIG_recipients e)))"

subsection \<open>Example data\<close>

text \<open>
  The default settings with the two recipients of the README, and a world whose state
  file holds a given state.
\<close>

definition exampleConfig :: config where
  "exampleConfig = defaultConfig [''0541840988'', ''0501302075'']"

definition worldWith :: "monitor_state \<Rightarrow> world" where
  "worldWith s = \<lparr> stateFile = Content (stringify s), writeError = None, trace = [] \<rparr>"

text \<open>
  Four poll cycles, 31 minutes apart, in which the balance falls by 20 each time and
  every alert is delivered.
\<close>

definition lowBalanceEpisode :: "cycle_input list" where
  "lowBalanceEpisode =
     [\<lparr> clockCheck = 1765810635926, clockAlert = 1765810636500,
        fetchResult = FetchReturned (Some (Num 650)), sendResult = SendOk \<rparr>,
      \<lparr> clockCheck = 1765812495926, clockAlert = 1765812496500,
        fetchResult = FetchReturned (Some (Num 630)), sendResult = SendOk \<rparr>,
      \<lparr> clockCheck = 1765814355926, clockAlert = 1765814356500,
        fetchResult = FetchReturned (Some (Num 610)), sendResult = SendOk \<rparr>,
      \<lparr> clockCheck = 1765816215926, clockAlert = 1765816216500,
        fetchResult = FetchReturned (Some (Num 590)), sendResult = SendOk \<rparr>]"

text \<open>
  Three further cycles: a lower balance, a provider that does not answer, and a balance
  that has almost run out.
\<close>

definition cyclesAtTheCap :: "cycle_input list" where
  "cyclesAtTheCap =
     [\<lparr> clockCheck = 1765818075926, clockAlert = 1765818076500,
        fetchResult = FetchReturned (Some (Num 570)), sendResult = SendOk \<rparr>,
      \<lparr> clockCheck = 1765819935926, clockAlert = 1765819936500,
        fetchResult = FetchThrows ''Balance check failed: No response received'',
        sendResult = SendOk \<rparr>,
      \<lparr> clockCheck = 1765821795926, clockAlert = 1765821796500,
        fetchResult = FetchReturned (Some (Num 12)), sendResult = SendOk \<rparr>]"

section \<open>Properties\<close>

subsection \<open>The state store\<close>

lemma js_le_Num: "js_le x (ofInt t) \<longleftrightarrow> (\<exists>b. x = Num b \<and> b \<le> of_int t)"
  by (cases x) (simp_all add: ofInt_def)

lemma js_gt_Num: "js_gt x (ofInt t) \<longleftrightarrow> (\<exists>b. x = Num b \<and> of_int t < b)"
  by (cases x) (simp_all add: ofInt_def)

lemma js_le_not_gt: "js_le x y \<Longrightarrow> \<not> js_gt x y"
  by (cases x; cases y) simp_all

lemma js_gt_not_le: "js_gt x y \<Longrightarrow> \<not> js_le x y"
  by (cases x; cases y) simp_all

lemma jsonNumber_simps:
  "jsonNumber None = None"
  "jsonNumber (Some (Num r)) = Some r"
  "jsonNumber (Some NaN) = None"
  by (simp_all add: jsonNumber_def)

lemma jsonNumber_low:
  "js_le x y \<Longrightarrow> map_option Num (jsonNumber (Some x)) = Some x"
  by (cases x) (simp_all add: jsonNumber_def)

lemma jsonNumber_high:
  "js_gt x y \<Longrightarrow> map_option Num (jsonNumber (Some x)) = Some x"
  by (cases x) (simp_all add: jsonNumber_def)

text \<open>Writing a state and reading it back loses a \<^verbatim>\<open>NaN\<close> and nothing else.\<close>

lemma merge_defaults_stringify:
  "merge_defaults (stringify s) =
     s\<lparr>lastKnownBalance := map_option Num (jsonNumber (lastKnownBalance s))\<rparr>"
  by (simp add: merge_defaults_def stringify_def)

lemma merge_defaults_stringify_finite:
  "lastKnownBalance s \<noteq> Some NaN \<Longrightarrow> merge_defaults (stringify s) = s"
  by (cases "lastKnownBalance s" rule: option.exhaust; cases "the (lastKnownBalance s)")
     (simp_all add: merge_defaults_stringify jsonNumber_simps)

lemma emit_fields:
  "stateFile (emit e w) = stateFile w"
  "writeError (emit e w) = writeError w"
  "trace (emit e w) = trace w @ [e]"
  by (simp_all add: emit_def)

lemma log_msg_fields:
  "stateFile (log_msg m l w) = stateFile w"
  "writeError (log_msg m l w) = writeError w"
  "trace (log_msg m l w) = trace w @ [EvLog l m]"
  by (simp_all add: log_msg_def emit_fields)

lemma saveState_fields:
  "writeError (saveState s w) = writeError w"
  "stateFile (saveState s w) =
     (case writeError w of None \<Rightarrow> Content (stringify s) | Some msg \<Rightarrow> stateFile w)"
  "trace (saveState s w) =
     trace w @ EvSave s # (case writeError w of None \<Rightarrow> [] | Some msg \<Rightarrow> [EvLog ERROR (SaveError msg)])"
  by (simp_all add: saveState_def Let_def emit_fields log_msg_fields split: option.split)

lemma loadState_fields:
  "fst (loadState w) = persisted w"
  "stateFile (snd (loadState w)) = stateFile w"
  "writeError (snd (loadState w)) = writeError w"
  "trace (snd (loadState w)) =
     trace w @ (case stateFile w of Unreadable msg \<Rightarrow> [EvLog ERROR (LoadError msg)] | _ \<Rightarrow> [])"
  by (simp_all add: loadState_def persisted_def log_msg_fields split: file_content.split)

lemma persisted_cong: "stateFile w = stateFile w' \<Longrightarrow> persisted w = persisted w'"
  by (simp add: persisted_def loadState_def split: file_content.split)

lemma persisted_saveState:
  "persisted (saveState s w) =
     (case writeError w of
        None \<Rightarrow> s\<lparr>lastKnownBalance := map_option Num (jsonNumber (lastKnownBalance s))\<rparr>
      | Some msg \<Rightarrow> persisted w)"
  by (simp add: persisted_def loadState_def saveState_fields merge_defaults_stringify
      split: option.split file_content.split)

text \<open>A state read from the file never holds \<^verbatim>\<open>NaN\<close>.\<close>

lemma persisted_finite:
  "map_option Num (jsonNumber (lastKnownBalance (persisted w))) = lastKnownBalance (persisted w)"
  by (simp add: persisted_def loadState_def merge_defaults_def defaultState_def jsonNumber_def
      split: file_content.split option.split)

lemma persisted_not_NaN: "lastKnownBalance (persisted w) \<noteq> Some NaN"
  using persisted_finite [of w] by (auto simp add: jsonNumber_def)

lemma sent_append: "sent (xs @ ys) = sent xs @ sent ys"
  by (induction xs rule: sent.induct) simp_all

lemma effects_append: "effects (xs @ ys) = effects xs @ effects ys"
  by (induction xs rule: effects.induct) simp_all

subsection \<open>The decision\<close>

text \<open>The answer depends on three fields of the state only, and not on the world.\<close>

lemma shouldSendNotification_fst_cong:
  "consecutiveNotificationCount s = consecutiveNotificationCount s' \<Longrightarrow>
   lastNotificationTime s = lastNotificationTime s' \<Longrightarrow>
   lastKnownBalance s = lastKnownBalance s' \<Longrightarrow>
   fst (shouldSendNotification cfg now balance s w) =
   fst (shouldSendNotification cfg now balance s' w')"
  by (simp add: shouldSendNotification_def Let_def)

text \<open>At or below the threshold the decision touches neither the state nor the world.\<close>

lemma shouldSendNotification_low_snd:
  "js_le balance (ofInt (threshold cfg)) \<Longrightarrow>
   snd (shouldSendNotification cfg now balance s w) = (s, w)"
  by (simp add: shouldSendNotification_def js_le_not_gt)

lemma decide_Send:
  "decide cfg now balance s w = Send \<longleftrightarrow> fst (shouldSendNotification cfg now balance s w)"
  by (simp add: decide_def split_beta)

subsection \<open>The poll cycle, step by step\<close>

lemma persisted_log_msg: "persisted (log_msg m l w) = persisted w"
  by (rule persisted_cong) (simp add: log_msg_fields)

lemma persisted_emit: "persisted (emit e w) = persisted w"
  by (rule persisted_cong) (simp add: emit_fields)

lemma persisted_snd_loadState: "persisted (snd (loadState w)) = persisted w"
  by (rule persisted_cong) (simp add: loadState_fields)

text \<open>At or below the threshold, \<^verbatim>\<open>alertLowSMSBalance\<close> in terms of the stored state.\<close>

lemma alertLowSMSBalance_low:
  "js_le balance (ofInt (threshold cfg)) \<Longrightarrow>
   alertLowSMSBalance cfg inp balance w =
     (let now = clockAlert inp; state = persisted w; w1 = snd (loadState w) in
      if fst (shouldSendNotification cfg now balance state w1) then
        (let w3 = emit (EvSend (recipients cfg)
                    (LowBalanceAlert balance (consecutiveNotificationCount state + 1))) w1
         in case sendResult inp of
              SendThrows msg \<Rightarrow> log_msg (SendFailed msg) ERROR w3
            | SendOk \<Rightarrow>
                log_msg (NotificationSent (providerName cfg) (consecutiveNotificationCount state + 1)
                    (maxConsecutiveNotifications cfg) balance) WARN
                  (saveState (state
                      \<lparr> lastNotificationTime := Some now,
                        consecutiveNotificationCount := consecutiveNotificationCount state + 1,
                        lastKnownBalance := Some balance,
                        totalNotifications := totalNotifications state + 1 \<rparr>) w3))
      else log_msg (NotificationSkipped balance (getSkipReason cfg now balance state)) INFO w1)"
  by (simp add: alertLowSMSBalance_def Let_def split_beta loadState_fields
      shouldSendNotification_low_snd split: send_result.split)

lemma checkSMSBalance_unfold:
  "checkSMSBalance cfg inp w =
     (case fetchResult inp of
        FetchThrows msg \<Rightarrow> log_msg (CheckFailed msg) ERROR (fetched inp w)
      | FetchReturned None \<Rightarrow>
          log_msg NullBalance WARN (log_msg (BalanceCheck None (threshold cfg)) INFO (fetched inp w))
      | FetchReturned (Some balance) \<Rightarrow>
          (let w4 = log_msg (BalanceCheck (Some balance) (threshold cfg)) INFO (fetched inp w) in
           if js_le balance (ofInt (threshold cfg)) then alertLowSMSBalance cfg inp balance w4
           else if consecutiveNotificationCount (persisted w) > 0 then
             saveState (counted inp (persisted w)
                         \<lparr>consecutiveNotificationCount := 0, lastKnownBalance := Some balance\<rparr>)
               (log_msg (BalanceRecovered balance) INFO w4)
           else saveState (counted inp (persisted w)\<lparr>lastKnownBalance := Some balance\<rparr>) w4))"
  by (simp add: checkSMSBalance_def fetched_def counted_def Let_def split_beta loadState_fields
      split: fetch_result.split option.split)

lemma fetched_fields:
  "writeError (fetched inp w) = writeError w"
  "stateFile (fetched inp w) =
     (case writeError w of None \<Rightarrow> Content (stringify (counted inp (persisted w)))
      | Some msg \<Rightarrow> stateFile w)"
  by (simp_all add: fetched_def emit_fields saveState_fields loadState_fields split: option.split)

lemma fetched_trace:
  "trace (fetched inp w) =
     trace (snd (loadState w)) @ EvSave (counted inp (persisted w)) #
       (case writeError w of None \<Rightarrow> [] | Some msg \<Rightarrow> [EvLog ERROR (SaveError msg)]) @ [EvFetch]"
  by (simp add: fetched_def emit_fields saveState_fields loadState_fields)

lemma persisted_fetched:
  "persisted (fetched inp w) =
     (case writeError w of None \<Rightarrow> counted inp (persisted w) | Some msg \<Rightarrow> persisted w)"
  by (simp add: fetched_def persisted_emit persisted_saveState persisted_snd_loadState
      loadState_fields counted_def persisted_finite split: option.split)

text \<open>Counting the check changes none of the fields the decision reads.\<close>

lemma fetched_decision_fields:
  "consecutiveNotificationCount (persisted (fetched inp w)) = consecutiveNotificationCount (persisted w)"
  "lastNotificationTime (persisted (fetched inp w)) = lastNotificationTime (persisted w)"
  "lastKnownBalance (persisted (fetched inp w)) = lastKnownBalance (persisted w)"
  "totalNotifications (persisted (fetched inp w)) = totalNotifications (persisted w)"
  by (simp_all add: persisted_fetched counted_def split: option.split)

lemma fetched_decision:
  "fst (shouldSendNotification cfg now balance (persisted (fetched inp w)) w1) =
   fst (shouldSendNotification cfg now balance (persisted w) w2)"
  by (rule shouldSendNotification_fst_cong) (simp_all add: fetched_decision_fields)

lemma sent_fetched: "sent (trace (fetched inp w)) = sent (trace w)"
  by (simp add: fetched_trace loadState_fields sent_append
      split: option.split file_content.split)

lemma persisted_alert_low:
  assumes "js_le balance (ofInt (threshold cfg))"
  shows "persisted (alertLowSMSBalance cfg inp balance w) =
     (if fst (shouldSendNotification cfg (clockAlert inp) balance (persisted w) w)
         \<and> sendResult inp = SendOk \<and> writeError w = None
      then (persisted w)
             \<lparr> lastNotificationTime := Some (clockAlert inp),
               consecutiveNotificationCount := consecutiveNotificationCount (persisted w) + 1,
               lastKnownBalance := Some balance,
               totalNotifications := totalNotifications (persisted w) + 1 \<rparr>
      else persisted w)"
proof -
  have d: "fst (shouldSendNotification cfg (clockAlert inp) balance (persisted w) (snd (loadState w)))
         = fst (shouldSendNotification cfg (clockAlert inp) balance (persisted w) w)"
    by (rule shouldSendNotification_fst_cong) simp_all
  show ?thesis
    by (cases "sendResult inp"; cases "writeError w")
       (simp_all add: alertLowSMSBalance_low [OF assms] Let_def d persisted_log_msg
          persisted_emit persisted_snd_loadState persisted_saveState emit_fields
          loadState_fields jsonNumber_low [OF assms])
qed

lemma sent_alert_low:
  assumes "js_le balance (ofInt (threshold cfg))"
  shows "sent (trace (alertLowSMSBalance cfg inp balance w)) =
     sent (trace w) @
     (if fst (shouldSendNotification cfg (clockAlert inp) balance (persisted w) w)
      then [(recipients cfg,
             LowBalanceAlert balance (consecutiveNotificationCount (persisted w) + 1))]
      else [])"
proof -
  have d: "fst (shouldSendNotification cfg (clockAlert inp) balance (persisted w) (snd (loadState w)))
         = fst (shouldSendNotification cfg (clockAlert inp) balance (persisted w) w)"
    by (rule shouldSendNotification_fst_cong) simp_all
  show ?thesis
    by (cases "sendResult inp"; cases "writeError w"; cases "stateFile w")
       (simp_all add: alertLowSMSBalance_low [OF assms] Let_def d log_msg_fields
          emit_fields saveState_fields loadState_fields sent_append)
qed

text \<open>The stored state after a whole cycle.\<close>

lemma persisted_checkSMSBalance:
  "persisted (checkSMSBalance cfg inp w) =
     (case writeError w of
        Some msg \<Rightarrow> persisted w
      | None \<Rightarrow>
         (case fetchResult inp of
            FetchThrows msg \<Rightarrow> counted inp (persisted w)
          | FetchReturned None \<Rightarrow> counted inp (persisted w)
          | FetchReturned (Some balance) \<Rightarrow>
              if js_le balance (ofInt (threshold cfg)) then
                if fst (shouldSendNotification cfg (clockAlert inp) balance (persisted w) w)
                   \<and> sendResult inp = SendOk then
                  counted inp (persisted w)
                    \<lparr> lastNotificationTime := Some (clockAlert inp),
                      consecutiveNotificationCount := consecutiveNotificationCount (persisted w) + 1,
                      lastKnownBalance := Some balance,
                      totalNotifications := totalNotifications (persisted w) + 1 \<rparr>
                else counted inp (persisted w)
              else
                counted inp (persisted w)
                  \<lparr> consecutiveNotificationCount := 0,
                    lastKnownBalance := map_option Num (jsonNumber (Some balance)) \<rparr>))"
proof (cases "fetchResult inp")
  case (FetchThrows msg)
  then show ?thesis
    by (simp add: checkSMSBalance_unfold persisted_log_msg persisted_fetched split: option.split)
next
  case (FetchReturned r)
  show ?thesis
  proof (cases r)
    case None
    with FetchReturned show ?thesis
      by (simp add: checkSMSBalance_unfold persisted_log_msg persisted_fetched split: option.split)
  next
    case (Some balance)
    show ?thesis
    proof (cases "js_le balance (ofInt (threshold cfg))")
      case True
      let ?w4 = "log_msg (BalanceCheck (Some balance) (threshold cfg)) INFO (fetched inp w)"
      have c: "checkSMSBalance cfg inp w = alertLowSMSBalance cfg inp balance ?w4"
        using True FetchReturned Some by (simp add: checkSMSBalance_unfold)
      have p4: "persisted ?w4 = persisted (fetched inp w)"
        by (rule persisted_log_msg)
      have d: "fst (shouldSendNotification cfg (clockAlert inp) balance
                      (persisted (fetched inp w)) ?w4)
             = fst (shouldSendNotification cfg (clockAlert inp) balance (persisted w) w)"
        by (rule fetched_decision)
      have we: "writeError ?w4 = writeError w"
        by (simp add: log_msg_fields fetched_fields)
      have "persisted (checkSMSBalance cfg inp w) =
        (if fst (shouldSendNotification cfg (clockAlert inp) balance (persisted w) w)
            \<and> sendResult inp = SendOk \<and> writeError w = None
         then (persisted (fetched inp w))
             \<lparr> lastNotificationTime := Some (clockAlert inp),
               consecutiveNotificationCount :=
                 consecutiveNotificationCount (persisted (fetched inp w)) + 1,
               lastKnownBalance := Some balance,
               totalNotifications := totalNotifications (persisted (fetched inp w)) + 1 \<rparr>
         else persisted (fetched inp w))"
        by (simp only: c persisted_alert_low [OF True] d we p4)
      with True FetchReturned Some show ?thesis
        by (cases "writeError w") (simp_all add: persisted_fetched counted_def)
    next
      case False
      with FetchReturned Some show ?thesis
        by (simp add: checkSMSBalance_unfold Let_def persisted_saveState log_msg_fields
            fetched_fields persisted_log_msg persisted_fetched counted_def split: option.split)
    qed
  qed
qed

lemma sent_checkSMSBalance:
  "sent (trace (checkSMSBalance cfg inp w)) =
     sent (trace w) @
     (case fetchResult inp of
        FetchReturned (Some balance) \<Rightarrow>
          if js_le balance (ofInt (threshold cfg))
             \<and> fst (shouldSendNotification cfg (clockAlert inp) balance (persisted w) w)
          then [(recipients cfg,
                 LowBalanceAlert balance (consecutiveNotificationCount (persisted w) + 1))]
          else []
      | _ \<Rightarrow> [])"
proof (cases "fetchResult inp")
  case (FetchThrows msg)
  then show ?thesis
    by (simp add: checkSMSBalance_unfold log_msg_fields sent_append sent_fetched)
next
  case (FetchReturned r)
  show ?thesis
  proof (cases r)
    case None
    with FetchReturned show ?thesis
      by (simp add: checkSMSBalance_unfold log_msg_fields sent_append sent_fetched)
  next
    case (Some balance)
    show ?thesis
    proof (cases "js_le balance (ofInt (threshold cfg))")
      case True
      let ?w4 = "log_msg (BalanceCheck (Some balance) (threshold cfg)) INFO (fetched inp w)"
      have c: "checkSMSBalance cfg inp w = alertLowSMSBalance cfg inp balance ?w4"
        using True FetchReturned Some by (simp add: checkSMSBalance_unfold)
      have p4: "persisted ?w4 = persisted (fetched inp w)"
        by (rule persisted_log_msg)
      have d: "fst (shouldSendNotification cfg (clockAlert inp) balance
                      (persisted (fetched inp w)) ?w4)
             = fst (shouldSendNotification cfg (clockAlert inp) balance (persisted w) w)"
        by (rule fetched_decision)
      have t4: "sent (trace ?w4) = sent (trace w)"
        by (simp add: log_msg_fields sent_append sent_fetched)
      have "sent (trace (checkSMSBalance cfg inp w)) =
        sent (trace w) @
        (if fst (shouldSendNotification cfg (clockAlert inp) balance (persisted w) w)
         then [(recipients cfg,
                LowBalanceAlert balance
                  (consecutiveNotificationCount (persisted (fetched inp w)) + 1))]
         else [])"
        by (simp only: c sent_alert_low [OF True] d t4 p4)
      with True FetchReturned Some show ?thesis
        by (simp add: fetched_decision_fields)
    next
      case False
      with FetchReturned Some show ?thesis
        by (simp add: checkSMSBalance_unfold Let_def saveState_fields log_msg_fields
            sent_append sent_fetched split: option.split)
    qed
  qed
qed

lemma effects_fetched:
  "effects (trace (fetched inp w)) =
     effects (trace w) @ [EvSave (counted inp (persisted w)), EvFetch]"
  by (simp add: fetched_trace loadState_fields effects_append
      split: option.split file_content.split)

text \<open>A cycle only adds to the trace.\<close>

lemma trace_alert_extends:
  assumes "js_le balance (ofInt (threshold cfg))"
  shows "\<exists>more. trace (alertLowSMSBalance cfg inp balance w) = trace w @ more"
  by (cases "sendResult inp")
     (simp_all add: alertLowSMSBalance_low [OF assms] Let_def log_msg_fields emit_fields
        saveState_fields loadState_fields)

lemma trace_cycle_extends:
  "\<exists>more. trace (checkSMSBalance cfg inp w) = trace (fetched inp w) @ more"
proof (cases "fetchResult inp")
  case (FetchThrows msg)
  then show ?thesis
    by (simp add: checkSMSBalance_unfold log_msg_fields)
next
  case (FetchReturned r)
  show ?thesis
  proof (cases r)
    case None
    with FetchReturned show ?thesis
      by (simp add: checkSMSBalance_unfold log_msg_fields)
  next
    case (Some balance)
    show ?thesis
    proof (cases "js_le balance (ofInt (threshold cfg))")
      case True
      let ?w4 = "log_msg (BalanceCheck (Some balance) (threshold cfg)) INFO (fetched inp w)"
      from trace_alert_extends [OF True, of inp ?w4]
      obtain more where "trace (alertLowSMSBalance cfg inp balance ?w4) = trace ?w4 @ more"
        by blast
      with True FetchReturned Some show ?thesis
        by (simp add: checkSMSBalance_unfold log_msg_fields)
    next
      case False
      with FetchReturned Some show ?thesis
        by (simp add: checkSMSBalance_unfold Let_def saveState_fields log_msg_fields)
    qed
  qed
qed

text \<open>The effects of a cycle that observes a balance above the threshold.\<close>

lemma effects_saveState: "effects (trace (saveState s w)) = effects (trace w) @ [EvSave s]"
  by (simp add: saveState_fields effects_append split: option.split)

lemma effects_log_msg: "effects (trace (log_msg m l w)) = effects (trace w)"
  by (simp add: log_msg_fields effects_append)

lemma effects_recovery:
  assumes "fetchResult inp = FetchReturned (Some balance)"
    and "\<not> js_le balance (ofInt (threshold cfg))"
  shows "effects (trace (checkSMSBalance cfg inp w)) =
           effects (trace w) @
             [EvSave (counted inp (persisted w)), EvFetch,
              EvSave (counted inp (persisted w)
                       \<lparr>consecutiveNotificationCount := 0, lastKnownBalance := Some balance\<rparr>)]"
proof (cases "consecutiveNotificationCount (persisted w) > 0")
  case True
  with assms show ?thesis
    by (simp add: checkSMSBalance_unfold Let_def effects_saveState effects_log_msg
        effects_fetched)
next
  case False
  then have "counted inp (persisted w)\<lparr>lastKnownBalance := Some balance\<rparr> =
             counted inp (persisted w)
               \<lparr>consecutiveNotificationCount := 0, lastKnownBalance := Some balance\<rparr>"
    by (simp add: counted_def)
  with False assms show ?thesis
    by (simp add: checkSMSBalance_unfold Let_def effects_saveState effects_log_msg
        effects_fetched)
qed

subsection \<open>The counter stays within the maximum\<close>

lemma shouldSend_below_max:
  "js_le balance (ofInt (threshold cfg)) \<Longrightarrow>
   fst (shouldSendNotification cfg now balance s w) \<Longrightarrow>
   int (consecutiveNotificationCount s) < maxConsecutiveNotifications cfg"
  by (simp add: shouldSendNotification_def js_le_not_gt split: if_splits)

lemma count_after_cycle:
  assumes "int (consecutiveNotificationCount (persisted w)) \<le> maxConsecutiveNotifications cfg"
  shows "int (consecutiveNotificationCount (persisted (checkSMSBalance cfg inp w)))
           \<le> maxConsecutiveNotifications cfg"
proof -
  have z: "0 \<le> maxConsecutiveNotifications cfg"
    using assms by linarith
  have s: "int (consecutiveNotificationCount (persisted w)) + 1 \<le> maxConsecutiveNotifications cfg"
    if "js_le balance (ofInt (threshold cfg))"
      and "fst (shouldSendNotification cfg (clockAlert inp) balance (persisted w) w)"
    for balance
    using shouldSend_below_max [OF that] by simp
  show ?thesis
  proof (cases "writeError w")
    case (Some e)
    with assms show ?thesis
      by (simp add: persisted_checkSMSBalance)
  next
    case None
    show ?thesis
    proof (cases "fetchResult inp")
      case (FetchThrows msg)
      with None assms show ?thesis
        by (simp add: persisted_checkSMSBalance counted_def)
    next
      case (FetchReturned r)
      show ?thesis
      proof (cases r)
        case None': None
        with None FetchReturned assms show ?thesis
          by (simp add: persisted_checkSMSBalance counted_def)
      next
        case (Some balance)
        with None FetchReturned assms z s [of balance] show ?thesis
          by (auto simp add: persisted_checkSMSBalance counted_def not_less)
      qed
    qed
  qed
qed

lemma reachable_count:
  assumes "reachable cfg w" and "1 \<le> maxConsecutiveNotifications cfg"
  shows "int (consecutiveNotificationCount (persisted w)) \<le> maxConsecutiveNotifications cfg"
  using assms
proof (induction rule: reachable.induct)
  case start
  then show ?case
    by (simp add: persisted_def loadState_def freshWorld_def defaultState_def)
next
  case (cycle w inp)
  then show ?case
    by (simp add: count_after_cycle)
next
  case (under_way w inp)
  then show ?case
    by (simp add: fetched_decision_fields)
next
  case (disk w e)
  have "persisted (w\<lparr>writeError := e\<rparr>) = persisted w"
    by (rule persisted_cong) simp
  with disk show ?case
    by simp
qed

text \<open>
  At the maximum, a cycle that does not observe a balance above the threshold sends
  nothing and keeps the counter; so does every run of such cycles.
\<close>

lemma capped_cycle:
  assumes m: "maxConsecutiveNotifications cfg \<le> int (consecutiveNotificationCount (persisted w))"
    and low: "\<And>balance. fetchResult inp = FetchReturned (Some balance) \<Longrightarrow>
                js_le balance (ofInt (threshold cfg))"
  shows "sent (trace (checkSMSBalance cfg inp w)) = sent (trace w) \<and>
         consecutiveNotificationCount (persisted (checkSMSBalance cfg inp w)) =
           consecutiveNotificationCount (persisted w)"
proof (cases "fetchResult inp")
  case (FetchThrows msg)
  then show ?thesis
    by (simp add: sent_checkSMSBalance persisted_checkSMSBalance counted_def split: option.split)
next
  case (FetchReturned r)
  show ?thesis
  proof (cases r)
    case None
    with FetchReturned show ?thesis
      by (simp add: sent_checkSMSBalance persisted_checkSMSBalance counted_def
          split: option.split)
  next
    case (Some balance)
    with FetchReturned low have b: "js_le balance (ofInt (threshold cfg))"
      by simp
    have n: "\<not> fst (shouldSendNotification cfg (clockAlert inp) balance (persisted w) w)"
      using b m by (simp add: shouldSendNotification_def js_le_not_gt)
    from FetchReturned Some b n show ?thesis
      by (simp add: sent_checkSMSBalance persisted_checkSMSBalance counted_def
          split: option.split)
  qed
qed

lemma capped_run:
  assumes "maxConsecutiveNotifications cfg \<le> int (consecutiveNotificationCount (persisted w))"
    and "\<forall>inp \<in> set inps. \<forall>balance.
           fetchResult inp = FetchReturned (Some balance) \<longrightarrow> js_le balance (ofInt (threshold cfg))"
  shows "sent (trace (monitoring cfg inps w)) = sent (trace w) \<and>
         consecutiveNotificationCount (persisted (monitoring cfg inps w)) =
           consecutiveNotificationCount (persisted w)"
  using assms
proof (induction inps arbitrary: w)
  case Nil
  then show ?case by simp
next
  case (Cons inp inps)
  have c: "sent (trace (checkSMSBalance cfg inp w)) = sent (trace w) \<and>
         consecutiveNotificationCount (persisted (checkSMSBalance cfg inp w)) =
           consecutiveNotificationCount (persisted w)"
    using Cons.prems by (intro capped_cycle) simp_all
  with Cons.prems
  have "sent (trace (monitoring cfg inps (checkSMSBalance cfg inp w))) =
          sent (trace (checkSMSBalance cfg inp w)) \<and>
        consecutiveNotificationCount (persisted (monitoring cfg inps (checkSMSBalance cfg inp w))) =
          consecutiveNotificationCount (persisted (checkSMSBalance cfg inp w))"
    by (intro Cons.IH) simp_all
  with c show ?case by simp
qed

lemma reachable_monitoring:
  "reachable cfg w \<Longrightarrow> reachable cfg (monitoring cfg inps w)"
  by (induction inps arbitrary: w) (simp_all add: reachable.cycle)

subsection \<open>The time of the last notification\<close>

text \<open>
  The only assignment to \<open>lastNotificationTime\<close> is \<^verbatim>\<open>state.lastNotificationTime = now\<close>
  with \<^verbatim>\<open>now = Date.now()\<close>: a cycle keeps the stored time or stores its own clock
  reading, and a monitor whose clock never reads \<open>0\<close> never stores \<open>0\<close>.
\<close>

lemma lastNotificationTime_after_cycle:
  "lastNotificationTime (persisted (checkSMSBalance cfg inp w)) = lastNotificationTime (persisted w) \<or>
   lastNotificationTime (persisted (checkSMSBalance cfg inp w)) = Some (clockAlert inp)"
  by (simp add: persisted_checkSMSBalance counted_def split: option.split fetch_result.split)

lemma stored_time_not_zero:
  assumes "\<forall>inp \<in> set inps. clockAlert inp \<noteq> 0"
    and "lastNotificationTime (persisted w) \<noteq> Some 0"
  shows "lastNotificationTime (persisted (monitoring cfg inps w)) \<noteq> Some 0"
  using assms
proof (induction inps arbitrary: w)
  case Nil
  then show ?case by simp
next
  case (Cons inp inps)
  have "lastNotificationTime (persisted (checkSMSBalance cfg inp w)) \<noteq> Some 0"
    using lastNotificationTime_after_cycle [of cfg inp w] Cons.prems by auto
  with Cons show ?case by simp
qed

subsection \<open>The recipients\<close>

lemma split_comma_nonempty: "split_comma s \<noteq> []"
  by (induction s) (auto split: list.split)

lemma recipients_nonempty: "ALERT_CONFIG_recipients e \<noteq> []"
  by (simp add: ALERT_CONFIG_recipients_def split_comma_nonempty split: option.split)

text \<open>
  Whatever the environment, the list of recipients has an entry, so \<^verbatim>\<open>validateConfig\<close>
  never reports that a recipient is missing.
\<close>

lemma recipients_check_never_fires:
  "''At least one SMS_ALERT_RECIPIENTS is required'' \<notin> set (config_errors e)"
  using recipients_nonempty [of e]
  by (auto simp add: config_errors_def split: if_splits)

subsection \<open>Example data, evaluated\<close>

lemmas example_defs = exampleConfig_def defaultConfig_def freshWorld_def worldWith_def
  ofInt_def

lemmas cycle_defs = checkSMSBalance_def alertLowSMSBalance_def shouldSendNotification_def
  getSkipReason_def decide_def loadState_def saveState_def emit_def log_msg_def persisted_def
  defaultState_def merge_defaults_def stringify_def jsonNumber_def truthyNumber_def
  toNumber_def toJsnum_def Let_def

lemmas render_defs = numberToString_def decimal.simps digit_def

text \<open>Four alerts in a row use up the four notifications of an episode.\<close>

lemma episode_state:
  "persisted (monitoring exampleConfig lowBalanceEpisode freshWorld) =
     \<lparr> lastNotificationTime = Some 1765816216500, consecutiveNotificationCount = 4,
       lastKnownBalance = Some (Num 590), lastCheckTime = Some 1765816215926,
       totalChecks = 4, totalNotifications = 4 \<rparr>"
  by (simp add: lowBalanceEpisode_def example_defs cycle_defs)

section \<open>The claims\<close>

subsection \<open>C1: a dispatch that fails\<close>

text \<open>
  C1 says that a failed \<^verbatim>\<open>sendSMS\<close> still increments
  \<open>consecutiveNotificationCount\<close> and \<open>totalNotifications\<close> and sets
  \<open>lastNotificationTime\<close> and \<open>lastKnownBalance\<close>. In the code the four assignments
  and the \<^verbatim>\<open>saveState\<close> that follows them stand after
  \<^verbatim>\<open>await SMSProvider.sendSMS(..)\<close> inside the \<^verbatim>\<open>try\<close> block, so an exception
  skips them. On a first low balance (650, threshold 700) with a provider that does not
  answer, the decision is Send and none of the four fields gets the value C1 names.
\<close>

theorem failed_dispatch_counterexample:
  "decide exampleConfig 1765810636500 (Num 650) (persisted freshWorld) freshWorld = Send \<and>
   consecutiveNotificationCount (persisted (checkSMSBalance exampleConfig
     \<lparr> clockCheck = 1765810635926, clockAlert = 1765810636500,
       fetchResult = FetchReturned (Some (Num 650)),
       sendResult = SendThrows ''API request failed: No response received'' \<rparr>
     freshWorld)) \<noteq> consecutiveNotificationCount (persisted freshWorld) + 1 \<and>
   lastNotificationTime (persisted (checkSMSBalance exampleConfig
     \<lparr> clockCheck = 1765810635926, clockAlert = 1765810636500,
       fetchResult = FetchReturned (Some (Num 650)),
       sendResult = SendThrows ''API request failed: No response received'' \<rparr>
     freshWorld)) \<noteq> Some 1765810636500 \<and>
   totalNotifications (persisted (checkSMSBalance exampleConfig
     \<lparr> clockCheck = 1765810635926, clockAlert = 1765810636500,
       fetchResult = FetchReturned (Some (Num 650)),
       sendResult = SendThrows ''API request failed: No response received'' \<rparr>
     freshWorld)) \<noteq> totalNotifications (persisted freshWorld) + 1 \<and>
   lastKnownBalance (persisted (checkSMSBalance exampleConfig
     \<lparr> clockCheck = 1765810635926, clockAlert = 1765810636500,
       fetchResult = FetchReturned (Some (Num 650)),
       sendResult = SendThrows ''API request failed: No response received'' \<rparr>
     freshWorld)) \<noteq> Some (Num 650)"
  by (simp add: example_defs cycle_defs)

text \<open>
  C1 as the code has it: in a poll cycle with a balance at or below the threshold, a
  decision Send and a dispatch that throws, the alert is handed to the provider once and
  the failure is the last line logged, while \<open>consecutiveNotificationCount\<close>,
  \<open>lastNotificationTime\<close>, \<open>totalNotifications\<close> and \<open>lastKnownBalance\<close> keep the
  values they had before the cycle: the failed delivery consumes no notification slot and
  does not restart the cooldown.
\<close>

theorem failed_dispatch_keeps_state:
  assumes "fetchResult inp = FetchReturned (Some balance)"
    and "js_le balance (ofInt (threshold cfg))"
    and "decide cfg (clockAlert inp) balance (persisted w) w = Send"
    and "sendResult inp = SendThrows msg"
  shows "consecutiveNotificationCount (persisted (checkSMSBalance cfg inp w)) =
           consecutiveNotificationCount (persisted w) \<and>
         lastNotificationTime (persisted (checkSMSBalance cfg inp w)) =
           lastNotificationTime (persisted w) \<and>
         totalNotifications (persisted (checkSMSBalance cfg inp w)) =
           totalNotifications (persisted w) \<and>
         lastKnownBalance (persisted (checkSMSBalance cfg inp w)) =
           lastKnownBalance (persisted w) \<and>
         sent (trace (checkSMSBalance cfg inp w)) =
           sent (trace w) @
             [(recipients cfg,
               LowBalanceAlert balance (consecutiveNotificationCount (persisted w) + 1))] \<and>
         last (trace (checkSMSBalance cfg inp w)) = EvLog ERROR (SendFailed msg)"
proof -
  let ?w4 = "log_msg (BalanceCheck (Some balance) (threshold cfg)) INFO (fetched inp w)"
  have send: "fst (shouldSendNotification cfg (clockAlert inp) balance (persisted w) w)"
    using assms(3) by (simp add: decide_Send)
  have "fst (shouldSendNotification cfg (clockAlert inp) balance (persisted ?w4)
               (snd (loadState ?w4)))"
    using send by (simp add: persisted_log_msg fetched_decision [where ?w2.0 = w])
  then have l: "last (trace (checkSMSBalance cfg inp w)) = EvLog ERROR (SendFailed msg)"
    using assms(1,2,4)
    by (simp add: checkSMSBalance_unfold alertLowSMSBalance_low Let_def log_msg_fields)
  have p: "persisted (checkSMSBalance cfg inp w) =
             (case writeError w of None \<Rightarrow> counted inp (persisted w) | Some e \<Rightarrow> persisted w)"
    using assms(1,2,4) by (simp add: persisted_checkSMSBalance split: option.split)
  have s: "sent (trace (checkSMSBalance cfg inp w)) =
           sent (trace w) @
             [(recipients cfg,
               LowBalanceAlert balance (consecutiveNotificationCount (persisted w) + 1))]"
    using assms(1,2) send by (simp add: sent_checkSMSBalance)
  show ?thesis
    using s l by (simp add: p counted_def split: option.split)
qed

text \<open>
  The cycle of the counterexample: the alert was handed to the provider, and the counter
  is still 0.
\<close>

theorem failed_dispatch_keeps_state_witness:
  "js_le (Num 650) (ofInt (threshold exampleConfig)) \<and>
   decide exampleConfig 1765810636500 (Num 650) (persisted freshWorld) freshWorld = Send \<and>
   consecutiveNotificationCount (persisted (checkSMSBalance exampleConfig
     \<lparr> clockCheck = 1765810635926, clockAlert = 1765810636500,
       fetchResult = FetchReturned (Some (Num 650)),
       sendResult = SendThrows ''API request failed: No response received'' \<rparr>
     freshWorld)) = 0 \<and>
   sent (trace (checkSMSBalance exampleConfig
     \<lparr> clockCheck = 1765810635926, clockAlert = 1765810636500,
       fetchResult = FetchReturned (Some (Num 650)),
       sendResult = SendThrows ''API request failed: No response received'' \<rparr>
     freshWorld)) = [([''0541840988'', ''0501302075''], LowBalanceAlert (Num 650) 1)]"
proof -
  have d: "decide exampleConfig 1765810636500 (Num 650) (persisted freshWorld) freshWorld = Send"
    by (simp add: example_defs cycle_defs)
  have b: "js_le (Num 650) (ofInt (threshold exampleConfig))"
    by (simp add: example_defs)
  show ?thesis
    using b d failed_dispatch_keeps_state
      [of "\<lparr> clockCheck = 1765810635926, clockAlert = 1765810636500,
             fetchResult = FetchReturned (Some (Num 650)),
             sendResult = SendThrows ''API request failed: No response received'' \<rparr>"
          "Num 650" exampleConfig freshWorld "''API request failed: No response received''"]
      b
    by (simp add: example_defs cycle_defs)
qed

subsection \<open>C2: when the last known balance is recorded\<close>

text \<open>
  C2 says that every check that obtains a balance records it in \<open>lastKnownBalance\<close>,
  whether or not a notification is sent. In the code a skipped notification leaves the
  state as it is: \<^verbatim>\<open>alertLowSMSBalance\<close> only logs the reason. One alert was sent at
  balance 650; five minutes later the balance is 640, the notification is skipped for
  the cooldown, and \<open>lastKnownBalance\<close> is still 650.
\<close>

theorem lastKnownBalance_counterexample:
  "decide exampleConfig 1765810935930 (Num 640)
     (persisted (worldWith
       \<lparr> lastNotificationTime = Some 1765810635926, consecutiveNotificationCount = 1,
         lastKnownBalance = Some (Num 650), lastCheckTime = Some 1765810635926,
         totalChecks = 1, totalNotifications = 1 \<rparr>))
     freshWorld = Skip ''Within cooldown period (25 minutes remaining)'' \<and>
   lastKnownBalance (persisted (checkSMSBalance exampleConfig
     \<lparr> clockCheck = 1765810935926, clockAlert = 1765810935930,
       fetchResult = FetchReturned (Some (Num 640)), sendResult = SendOk \<rparr>
     (worldWith
       \<lparr> lastNotificationTime = Some 1765810635926, consecutiveNotificationCount = 1,
         lastKnownBalance = Some (Num 650), lastCheckTime = Some 1765810635926,
         totalChecks = 1, totalNotifications = 1 \<rparr>))) = Some (Num 650) \<and>
   lastKnownBalance (persisted (checkSMSBalance exampleConfig
     \<lparr> clockCheck = 1765810935926, clockAlert = 1765810935930,
       fetchResult = FetchReturned (Some (Num 640)), sendResult = SendOk \<rparr>
     (worldWith
       \<lparr> lastNotificationTime = Some 1765810635926, consecutiveNotificationCount = 1,
         lastKnownBalance = Some (Num 650), lastCheckTime = Some 1765810635926,
         totalChecks = 1, totalNotifications = 1 \<rparr>))) \<noteq> Some (Num 640)"
  by (simp add: example_defs cycle_defs render_defs)

text \<open>
  C2 as the code has it: for every poll cycle in which a balance that is a number was
  obtained, the stored \<open>lastKnownBalance\<close> is updated to that balance when the balance
  is above the threshold, or when it is at or below the threshold and a notification is
  decided and delivered (and the state file can be written), and it is left unchanged
  when the notification is skipped or its dispatch fails; it is also left unchanged when
  the check itself failed to obtain a balance, the provider throwing or answering
  \<^verbatim>\<open>null\<close> or \<^verbatim>\<open>undefined\<close>.
\<close>

theorem lastKnownBalance_after_cycle:
  "(\<forall>msg. fetchResult inp = FetchThrows msg \<longrightarrow>
      lastKnownBalance (persisted (checkSMSBalance cfg inp w)) = lastKnownBalance (persisted w)) \<and>
   (fetchResult inp = FetchReturned None \<longrightarrow>
      lastKnownBalance (persisted (checkSMSBalance cfg inp w)) = lastKnownBalance (persisted w)) \<and>
   (\<forall>b. fetchResult inp = FetchReturned (Some (Num b)) \<longrightarrow>
      lastKnownBalance (persisted (checkSMSBalance cfg inp w)) =
        (if (of_int (threshold cfg) < b \<or>
             decide cfg (clockAlert inp) (Num b) (persisted w) w = Send \<and> sendResult inp = SendOk)
            \<and> writeError w = None
         then Some (Num b)
         else lastKnownBalance (persisted w)))"
  by (auto simp add: persisted_checkSMSBalance counted_def decide_Send ofInt_def jsonNumber_simps
      split: option.split)

text \<open>
  Thirty-five minutes after an alert at balance 640: a balance of 620 is notified and
  recorded; a balance of 645 is skipped and not recorded.
\<close>

theorem lastKnownBalance_after_cycle_witness:
  "lastKnownBalance (persisted (checkSMSBalance exampleConfig
     \<lparr> clockCheck = 1765812735926, clockAlert = 1765812735930,
       fetchResult = FetchReturned (Some (Num 620)), sendResult = SendOk \<rparr>
     (worldWith
       \<lparr> lastNotificationTime = Some 1765810635926, consecutiveNotificationCount = 1,
         lastKnownBalance = Some (Num 640), lastCheckTime = Some 1765812435926,
         totalChecks = 8, totalNotifications = 1 \<rparr>))) = Some (Num 620) \<and>
   lastKnownBalance (persisted (checkSMSBalance exampleConfig
     \<lparr> clockCheck = 1765812735926, clockAlert = 1765812735930,
       fetchResult = FetchReturned (Some (Num 645)), sendResult = SendOk \<rparr>
     (worldWith
       \<lparr> lastNotificationTime = Some 1765810635926, consecutiveNotificationCount = 1,
         lastKnownBalance = Some (Num 640), lastCheckTime = Some 1765812435926,
         totalChecks = 8, totalNotifications = 1 \<rparr>))) = Some (Num 640) \<and>
   lastKnownBalance (persisted (checkSMSBalance exampleConfig
     \<lparr> clockCheck = 1765812735926, clockAlert = 1765812735930,
       fetchResult = FetchThrows ''Balance check failed: No response received'',
       sendResult = SendOk \<rparr>
     (worldWith
       \<lparr> lastNotificationTime = Some 1765810635926, consecutiveNotificationCount = 1,
         lastKnownBalance = Some (Num 640), lastCheckTime = Some 1765812435926,
         totalChecks = 8, totalNotifications = 1 \<rparr>))) = Some (Num 640)"
  using lastKnownBalance_after_cycle [of
      "\<lparr> clockCheck = 1765812735926, clockAlert = 1765812735930,
         fetchResult = FetchReturned (Some (Num 620)), sendResult = SendOk \<rparr>"
      exampleConfig
      "worldWith
       \<lparr> lastNotificationTime = Some 1765810635926, consecutiveNotificationCount = 1,
         lastKnownBalance = Some (Num 640), lastCheckTime = Some 1765812435926,
         totalChecks = 8, totalNotifications = 1 \<rparr>"]
    lastKnownBalance_after_cycle [of
      "\<lparr> clockCheck = 1765812735926, clockAlert = 1765812735930,
         fetchResult = FetchReturned (Some (Num 645)), sendResult = SendOk \<rparr>"
      exampleConfig
      "worldWith
       \<lparr> lastNotificationTime = Some 1765810635926, consecutiveNotificationCount = 1,
         lastKnownBalance = Some (Num 640), lastCheckTime = Some 1765812435926,
         totalChecks = 8, totalNotifications = 1 \<rparr>"]
    lastKnownBalance_after_cycle [of
      "\<lparr> clockCheck = 1765812735926, clockAlert = 1765812735930,
         fetchResult = FetchThrows ''Balance check failed: No response received'',
         sendResult = SendOk \<rparr>"
      exampleConfig
      "worldWith
       \<lparr> lastNotificationTime = Some 1765810635926, consecutiveNotificationCount = 1,
         lastKnownBalance = Some (Num 640), lastCheckTime = Some 1765812435926,
         totalChecks = 8, totalNotifications = 1 \<rparr>"]
  by (simp add: example_defs cycle_defs)

text \<open>
  Outside C2 as amended: an answer that is not numeric. \<^verbatim>\<open>Number\<close> makes it
  \<^verbatim>\<open>NaN\<close>, which is neither \<^verbatim>\<open>null\<close> nor at or below the threshold, so the cycle
  takes the branch of a recovered balance: the counter is reset, and the balance is
  saved as \<^verbatim>\<open>NaN\<close>, which the state file holds as \<^verbatim>\<open>null\<close>.
\<close>

lemma nan_balance_cycle:
  assumes "fetchResult inp = FetchReturned (Some NaN)"
  shows "effects (trace (checkSMSBalance cfg inp w)) =
           effects (trace w) @
             [EvSave (counted inp (persisted w)), EvFetch,
              EvSave (counted inp (persisted w)
                       \<lparr>consecutiveNotificationCount := 0, lastKnownBalance := Some NaN\<rparr>)] \<and>
         persisted (checkSMSBalance cfg inp w) =
           (case writeError w of
              None \<Rightarrow> counted inp (persisted w)
                        \<lparr>consecutiveNotificationCount := 0, lastKnownBalance := None\<rparr>
            | Some msg \<Rightarrow> persisted w)"
  using assms effects_recovery [OF assms, of cfg w]
  by (simp add: persisted_checkSMSBalance ofInt_def jsonNumber_simps split: option.split)

subsection \<open>C3: the first alert of an episode\<close>

text \<open>
  C3: with \<open>consecutiveNotificationCount = 0\<close> and a balance at or below the threshold
  the decision is Send, whatever \<open>lastNotificationTime\<close>, \<open>lastKnownBalance\<close>, the
  cooldown and the balance-change threshold are. The configured maximum is at least 1,
  as the configuration requires.
\<close>

theorem first_alert_is_sent:
  assumes "consecutiveNotificationCount s = 0"
    and "js_le balance (ofInt (threshold cfg))"
    and "1 \<le> maxConsecutiveNotifications cfg"
  shows "shouldSendNotification cfg now balance s w = (True, s, w) \<and>
         decide cfg now balance s w = Send"
  using assms by (simp add: shouldSendNotification_def decide_def js_le_not_gt)

text \<open>
  A state whose last notification is one millisecond old and whose last known balance
  equals the new one: the first alert goes out all the same.
\<close>

theorem first_alert_is_sent_witness:
  "consecutiveNotificationCount
     \<lparr> lastNotificationTime = Some 1765810635926, consecutiveNotificationCount = 0,
       lastKnownBalance = Some (Num 650), lastCheckTime = Some 1765810635926,
       totalChecks = 42, totalNotifications = 2 \<rparr> = 0 \<and>
   js_le (Num 650) (ofInt (threshold exampleConfig)) \<and>
   1 \<le> maxConsecutiveNotifications exampleConfig \<and>
   decide exampleConfig 1765810635927 (Num 650)
     \<lparr> lastNotificationTime = Some 1765810635926, consecutiveNotificationCount = 0,
       lastKnownBalance = Some (Num 650), lastCheckTime = Some 1765810635926,
       totalChecks = 42, totalNotifications = 2 \<rparr>
     freshWorld = Send"
  using first_alert_is_sent
    [of "\<lparr> lastNotificationTime = Some 1765810635926, consecutiveNotificationCount = 0,
          lastKnownBalance = Some (Num 650), lastCheckTime = Some 1765810635926,
          totalChecks = 42, totalNotifications = 2 \<rparr>"
        "Num 650" exampleConfig 1765810635927 freshWorld]
  by (simp add: example_defs)

subsection \<open>C4: the cap on notifications\<close>

text \<open>
  C4: in every world the monitor reaches from a missing state file (between two poll
  cycles or with a cycle under way), with a configured maximum of at least 1, the stored
  \<open>consecutiveNotificationCount\<close> does not exceed \<open>maxConsecutiveNotifications\<close>; for
  every state whose counter has reached the maximum the decision is never Send, and at
  or below the threshold it is Skip with the reason
  \<^verbatim>\<open>Max consecutive notifications reached (..)\<close>; and once the stored counter is at
  the maximum, any number of poll cycles none of which observes a balance above the
  threshold (the reset) hand nothing to the provider and leave the counter as it is.
\<close>

theorem notification_cap:
  assumes "reachable cfg w" and "1 \<le> maxConsecutiveNotifications cfg"
  shows "int (consecutiveNotificationCount (persisted w)) \<le> maxConsecutiveNotifications cfg \<and>
    (\<forall>now balance s w0.
       maxConsecutiveNotifications cfg \<le> int (consecutiveNotificationCount s) \<longrightarrow>
         decide cfg now balance s w0 \<noteq> Send \<and>
         (js_le balance (ofInt (threshold cfg)) \<longrightarrow>
            decide cfg now balance s w0 =
              Skip (''Max consecutive notifications reached ('' @
                    numberToString (maxConsecutiveNotifications cfg) @ '')''))) \<and>
    (\<forall>inps.
       maxConsecutiveNotifications cfg \<le> int (consecutiveNotificationCount (persisted w)) \<longrightarrow>
       (\<forall>inp \<in> set inps. \<forall>balance.
          fetchResult inp = FetchReturned (Some balance) \<longrightarrow> js_le balance (ofInt (threshold cfg))) \<longrightarrow>
         sent (trace (monitoring cfg inps w)) = sent (trace w) \<and>
         consecutiveNotificationCount (persisted (monitoring cfg inps w)) =
           consecutiveNotificationCount (persisted w))"
proof (intro conjI allI impI)
  show "int (consecutiveNotificationCount (persisted w)) \<le> maxConsecutiveNotifications cfg"
    using assms by (rule reachable_count)
next
  fix now :: int and balance :: jsnum and s :: monitor_state and w0 :: world
  assume m: "maxConsecutiveNotifications cfg \<le> int (consecutiveNotificationCount s)"
  then show "decide cfg now balance s w0 \<noteq> Send"
    by (simp add: decide_Send shouldSendNotification_def Let_def)
  assume "js_le balance (ofInt (threshold cfg))"
  with m show "decide cfg now balance s w0 =
              Skip (''Max consecutive notifications reached ('' @
                    numberToString (maxConsecutiveNotifications cfg) @ '')'')"
    by (simp add: decide_def shouldSendNotification_def getSkipReason_def js_le_not_gt)
next
  fix inps :: "cycle_input list"
  assume m: "maxConsecutiveNotifications cfg \<le> int (consecutiveNotificationCount (persisted w))"
    and low: "\<forall>inp \<in> set inps. \<forall>balance.
          fetchResult inp = FetchReturned (Some balance) \<longrightarrow> js_le balance (ofInt (threshold cfg))"
  from capped_run [OF m low]
  show "sent (trace (monitoring cfg inps w)) = sent (trace w)"
    and "consecutiveNotificationCount (persisted (monitoring cfg inps w)) =
           consecutiveNotificationCount (persisted w)"
    by simp_all
qed

text \<open>
  After the four alerts of \<open>lowBalanceEpisode\<close> the counter is 4, the maximum; the three
  cycles of \<open>cyclesAtTheCap\<close> that follow, each a further cooldown later, notify nobody.
\<close>

theorem notification_cap_witness:
  "reachable exampleConfig (monitoring exampleConfig lowBalanceEpisode freshWorld) \<and>
   1 \<le> maxConsecutiveNotifications exampleConfig \<and>
   consecutiveNotificationCount
     (persisted (monitoring exampleConfig lowBalanceEpisode freshWorld)) = 4 \<and>
   decide exampleConfig 1765818076500 (Num 570)
     (persisted (monitoring exampleConfig lowBalanceEpisode freshWorld)) freshWorld =
     Skip ''Max consecutive notifications reached (4)'' \<and>
   map fetchResult cyclesAtTheCap =
     [FetchReturned (Some (Num 570)),
      FetchThrows ''Balance check failed: No response received'',
      FetchReturned (Some (Num 12))] \<and>
   js_le (Num 570) (ofInt (threshold exampleConfig)) \<and>
   js_le (Num 12) (ofInt (threshold exampleConfig)) \<and>
   sent (trace (monitoring exampleConfig cyclesAtTheCap
     (monitoring exampleConfig lowBalanceEpisode freshWorld))) =
   sent (trace (monitoring exampleConfig lowBalanceEpisode freshWorld))"
proof -
  let ?w = "monitoring exampleConfig lowBalanceEpisode freshWorld"
  have r: "reachable exampleConfig ?w"
    by (intro reachable_monitoring reachable.start)
  have m: "1 \<le> maxConsecutiveNotifications exampleConfig"
    by (simp add: example_defs)
  have c: "maxConsecutiveNotifications exampleConfig
             \<le> int (consecutiveNotificationCount (persisted ?w))"
    by (simp add: episode_state) (simp add: example_defs)
  have low: "\<forall>inp \<in> set cyclesAtTheCap. \<forall>balance.
      fetchResult inp = FetchReturned (Some balance) \<longrightarrow>
      js_le balance (ofInt (threshold exampleConfig))"
    by (simp add: cyclesAtTheCap_def example_defs)
  note cap = notification_cap [OF r m]
  from cap have d: "decide exampleConfig 1765818076500 (Num 570) (persisted ?w) freshWorld =
     Skip (''Max consecutive notifications reached ('' @
           numberToString (maxConsecutiveNotifications exampleConfig) @ '')'')"
    using c by (simp add: example_defs)
  from cap c low have s: "sent (trace (monitoring exampleConfig cyclesAtTheCap ?w)) =
      sent (trace ?w)"
    by blast
  have f: "map fetchResult cyclesAtTheCap =
     [FetchReturned (Some (Num 570)),
      FetchThrows ''Balance check failed: No response received'',
      FetchReturned (Some (Num 12))]"
    by (simp add: cyclesAtTheCap_def)
  show ?thesis
    using r m f s d by (simp add: episode_state) (simp add: example_defs render_defs)
qed

subsection \<open>C5: recovery\<close>

text \<open>
  C5: in every poll cycle that observes a balance above the threshold, whatever the
  stored state was, the effects (log lines apart) are the saving of the counted state,
  the call of the provider, and the saving of that state with
  \<open>consecutiveNotificationCount = 0\<close> and \<open>lastKnownBalance\<close> equal to the observed
  balance, which is the stored state afterwards when the file can be written; nothing is
  handed to the provider; and the decision for such a balance is Skip with the reason
  \<^verbatim>\<open>Balance above threshold\<close> on every state.
\<close>

theorem recovery_resets_count:
  assumes "fetchResult inp = FetchReturned (Some balance)"
    and "js_gt balance (ofInt (threshold cfg))"
  shows "effects (trace (checkSMSBalance cfg inp w)) =
           effects (trace w) @
             [EvSave ((persisted w)
                \<lparr> totalChecks := totalChecks (persisted w) + 1,
                  lastCheckTime := Some (clockCheck inp) \<rparr>),
              EvFetch,
              EvSave ((persisted w)
                \<lparr> totalChecks := totalChecks (persisted w) + 1,
                  lastCheckTime := Some (clockCheck inp),
                  consecutiveNotificationCount := 0,
                  lastKnownBalance := Some balance \<rparr>)] \<and>
         persisted (checkSMSBalance cfg inp w) =
           (case writeError w of
              None \<Rightarrow>
                (persisted w)
                  \<lparr> totalChecks := totalChecks (persisted w) + 1,
                    lastCheckTime := Some (clockCheck inp),
                    consecutiveNotificationCount := 0,
                    lastKnownBalance := Some balance \<rparr>
            | Some msg \<Rightarrow> persisted w) \<and>
         sent (trace (checkSMSBalance cfg inp w)) = sent (trace w) \<and>
         decide cfg now balance s w0 = Skip ''Balance above threshold''"
proof (intro conjI)
  show "effects (trace (checkSMSBalance cfg inp w)) =
           effects (trace w) @
             [EvSave ((persisted w)
                \<lparr> totalChecks := totalChecks (persisted w) + 1,
                  lastCheckTime := Some (clockCheck inp) \<rparr>),
              EvFetch,
              EvSave ((persisted w)
                \<lparr> totalChecks := totalChecks (persisted w) + 1,
                  lastCheckTime := Some (clockCheck inp),
                  consecutiveNotificationCount := 0,
                  lastKnownBalance := Some balance \<rparr>)]"
    using effects_recovery [OF assms(1) js_gt_not_le [OF assms(2)], of w]
    by (simp add: counted_def)
  show "persisted (checkSMSBalance cfg inp w) =
           (case writeError w of
              None \<Rightarrow>
                (persisted w)
                  \<lparr> totalChecks := totalChecks (persisted w) + 1,
                    lastCheckTime := Some (clockCheck inp),
                    consecutiveNotificationCount := 0,
                    lastKnownBalance := Some balance \<rparr>
            | Some msg \<Rightarrow> persisted w)"
    using assms(1) js_gt_not_le [OF assms(2)] jsonNumber_high [OF assms(2)]
    by (simp add: persisted_checkSMSBalance counted_def split: option.split)
  show "sent (trace (checkSMSBalance cfg inp w)) = sent (trace w)"
    using assms(1) js_gt_not_le [OF assms(2)] by (simp add: sent_checkSMSBalance)
  show "decide cfg now balance s w0 = Skip ''Balance above threshold''"
    using assms(2)
    by (simp add: decide_def shouldSendNotification_def getSkipReason_def Let_def)
qed

text \<open>Two notifications into an episode, the balance is back at 750.\<close>

theorem recovery_resets_count_witness:
  "js_gt (Num 750) (ofInt (threshold exampleConfig)) \<and>
   persisted (checkSMSBalance exampleConfig
     \<lparr> clockCheck = 1765812795926, clockAlert = 1765812795930,
       fetchResult = FetchReturned (Some (Num 750)), sendResult = SendOk \<rparr>
     (worldWith
       \<lparr> lastNotificationTime = Some 1765812496500, consecutiveNotificationCount = 2,
         lastKnownBalance = Some (Num 630), lastCheckTime = Some 1765812495926,
         totalChecks = 7, totalNotifications = 2 \<rparr>)) =
     \<lparr> lastNotificationTime = Some 1765812496500, consecutiveNotificationCount = 0,
       lastKnownBalance = Some (Num 750), lastCheckTime = Some 1765812795926,
       totalChecks = 8, totalNotifications = 2 \<rparr> \<and>
   sent (trace (checkSMSBalance exampleConfig
     \<lparr> clockCheck = 1765812795926, clockAlert = 1765812795930,
       fetchResult = FetchReturned (Some (Num 750)), sendResult = SendOk \<rparr>
     (worldWith
       \<lparr> lastNotificationTime = Some 1765812496500, consecutiveNotificationCount = 2,
         lastKnownBalance = Some (Num 630), lastCheckTime = Some 1765812495926,
         totalChecks = 7, totalNotifications = 2 \<rparr>))) = []"
proof -
  have b: "js_gt (Num 750) (ofInt (threshold exampleConfig))"
    by (simp add: example_defs)
  have f: "fetchResult \<lparr> clockCheck = 1765812795926, clockAlert = 1765812795930,
       fetchResult = FetchReturned (Some (Num 750)), sendResult = SendOk \<rparr> = FetchReturned (Some (Num 750))"
    by simp
  show ?thesis
    using b recovery_resets_count [OF f b, of _ 0 defaultState freshWorld]
    by (simp add: example_defs cycle_defs)
qed

subsection \<open>C6: an empty list of recipients\<close>

text \<open>
  C6 says that start-up fails when \<^verbatim>\<open>SMS_ALERT_RECIPIENTS\<close> is unset or empty.
  \<^verbatim>\<open>validateConfig\<close> does test \<^verbatim>\<open>recipients.length === 0\<close> and has the message
  \<^verbatim>\<open>At least one SMS_ALERT_RECIPIENTS is required\<close>, but for an unset or empty
  variable \<^verbatim>\<open>ALERT_CONFIG.recipients\<close> is the one-element array \<^verbatim>\<open>['']\<close>, so the
  test never holds. With the provider's settings present and the variable unset, or set
  to the empty string, the script reports nothing and starts polling, with the empty
  string as its only recipient.
\<close>

theorem startup_without_recipients:
  "startup ((\<lambda>k. None)
      (''SMS_URL'' := Some ''https://api.deywuro.com/bulksms/credit_bal.php'',
       ''SMS_USERNAME'' := Some ''admin'',
       ''SMS_PASSWORD'' := Some ''secret'')) = Polling [[]] \<and>
   startup ((\<lambda>k. None)
      (''SMS_URL'' := Some ''https://api.deywuro.com/bulksms/credit_bal.php'',
       ''SMS_USERNAME'' := Some ''admin'',
       ''SMS_PASSWORD'' := Some ''secret'',
       ''SMS_ALERT_RECIPIENTS'' := Some [])) = Polling [[]]"
  by (simp add: startup_def getProviderConfig_def SMS_PROVIDER_def js_or_def truthy_def
      getProvider_def DeywuroProvider_def DEYWURO_CONFIG_def validateConfig_def
      config_errors_def ALERT_CONFIG_recipients_def Let_def)

subsection \<open>C7: the cooldown\<close>

text \<open>
  C7: for every state with \<open>consecutiveNotificationCount\<close> at least 1 and below the
  maximum, a balance at or below the threshold and \<open>lastNotificationTime\<close> set to a time
  stamp \<open>t\<close> with \<open>now - t\<close> less than the cooldown, the decision is Skip with the reason
  \<^verbatim>\<open>Within cooldown period (N minutes remaining)\<close>, where \<open>N\<close> is
  \<open>(cooldown - (now - t)) / 60000\<close> rounded up. A time stamp that is set is a reading of
  \<^verbatim>\<open>Date.now()\<close>, the only value the script assigns to the field, and so it is not
  \<open>0\<close> (\<open>stored_time_not_zero\<close>); the script's test for a set field,
  \<^verbatim>\<open>state.lastNotificationTime && ..\<close>, relies on that.
\<close>

theorem cooldown_skip:
  assumes "1 \<le> consecutiveNotificationCount s"
    and "int (consecutiveNotificationCount s) < maxConsecutiveNotifications cfg"
    and "js_le balance (ofInt (threshold cfg))"
    and "lastNotificationTime s = Some t"
    and "t \<noteq> 0"
    and "now - t < notificationCooldown cfg"
  shows "decide cfg now balance s w =
           Skip (''Within cooldown period ('' @
                 numberToString \<lceil>(of_int (notificationCooldown cfg - (now - t)) :: real) / 60000\<rceil> @
                 '' minutes remaining)'')"
  using assms
  by (simp add: shouldSendNotification_def getSkipReason_def decide_def truthyNumber_def
      toNumber_def js_le_not_gt)

text \<open>A cooldown of 30 minutes and a notification 5 minutes ago: 25 minutes remain.\<close>

theorem cooldown_skip_witness:
  "1 \<le> consecutiveNotificationCount
      \<lparr> lastNotificationTime = Some 1765810635926, consecutiveNotificationCount = 1,
        lastKnownBalance = Some (Num 650), lastCheckTime = Some 1765810635926,
        totalChecks = 1, totalNotifications = 1 \<rparr> \<and>
   int (consecutiveNotificationCount
      \<lparr> lastNotificationTime = Some 1765810635926, consecutiveNotificationCount = 1,
        lastKnownBalance = Some (Num 650), lastCheckTime = Some 1765810635926,
        totalChecks = 1, totalNotifications = 1 \<rparr>) < maxConsecutiveNotifications exampleConfig \<and>
   js_le (Num 640) (ofInt (threshold exampleConfig)) \<and>
   (1765810635926::int) \<noteq> 0 \<and>
   1765810935926 - 1765810635926 < notificationCooldown exampleConfig \<and>
   notificationCooldown exampleConfig = 30 * 60000 \<and>
   1765810935926 - 1765810635926 = (5 * 60000 :: int) \<and>
   decide exampleConfig 1765810935926 (Num 640)
      \<lparr> lastNotificationTime = Some 1765810635926, consecutiveNotificationCount = 1,
        lastKnownBalance = Some (Num 650), lastCheckTime = Some 1765810635926,
        totalChecks = 1, totalNotifications = 1 \<rparr>
      freshWorld = Skip ''Within cooldown period (25 minutes remaining)''"
  using cooldown_skip
    [of "\<lparr> lastNotificationTime = Some 1765810635926, consecutiveNotificationCount = 1,
          lastKnownBalance = Some (Num 650), lastCheckTime = Some 1765810635926,
          totalChecks = 1, totalNotifications = 1 \<rparr>"
        exampleConfig "Num 640" 1765810635926 1765810935926 freshWorld]
  by (simp add: example_defs render_defs)

subsection \<open>C8: the check is counted before the balance is fetched\<close>

text \<open>
  C8: in every poll cycle the first effects, log lines apart, are the saving of the
  loaded state with \<open>totalChecks\<close> incremented and \<open>lastCheckTime\<close> set to the current
  time, and then the call of the provider; when the file can be written, that state is
  the stored one while the provider is asked. If the provider throws, nothing follows but
  the line that logs the failure: no state is saved again, no notification is decided
  or sent, \<open>lastKnownBalance\<close> keeps its value, and the monitor goes on with the next
  cycle.
\<close>

theorem bookkeeping_before_fetch:
  "(\<exists>rest. effects (trace (checkSMSBalance cfg inp w)) =
      effects (trace w) @
        EvSave ((persisted w)\<lparr>totalChecks := totalChecks (persisted w) + 1,
                              lastCheckTime := Some (clockCheck inp)\<rparr>) # EvFetch # rest) \<and>
   (writeError w = None \<longrightarrow>
      persisted (fetched inp w) =
        (persisted w)\<lparr>totalChecks := totalChecks (persisted w) + 1,
                      lastCheckTime := Some (clockCheck inp)\<rparr>) \<and>
   (\<forall>msg. fetchResult inp = FetchThrows msg \<longrightarrow>
      trace (checkSMSBalance cfg inp w) = trace (fetched inp w) @ [EvLog ERROR (CheckFailed msg)] \<and>
      effects (trace (checkSMSBalance cfg inp w)) =
        effects (trace w) @
          [EvSave ((persisted w)\<lparr>totalChecks := totalChecks (persisted w) + 1,
                                 lastCheckTime := Some (clockCheck inp)\<rparr>), EvFetch] \<and>
      lastKnownBalance (persisted (checkSMSBalance cfg inp w)) = lastKnownBalance (persisted w) \<and>
      monitoring cfg (inp # inps) w = monitoring cfg inps (checkSMSBalance cfg inp w))"
proof (intro conjI allI impI)
  obtain more where m: "trace (checkSMSBalance cfg inp w) = trace (fetched inp w) @ more"
    using trace_cycle_extends by blast
  show "\<exists>rest. effects (trace (checkSMSBalance cfg inp w)) =
      effects (trace w) @
        EvSave ((persisted w)\<lparr>totalChecks := totalChecks (persisted w) + 1,
                              lastCheckTime := Some (clockCheck inp)\<rparr>) # EvFetch # rest"
    by (simp add: m effects_append effects_fetched counted_def)
next
  assume "writeError w = None"
  then show "persisted (fetched inp w) =
        (persisted w)\<lparr>totalChecks := totalChecks (persisted w) + 1,
                      lastCheckTime := Some (clockCheck inp)\<rparr>"
    by (simp add: persisted_fetched counted_def)
next
  fix msg assume f: "fetchResult inp = FetchThrows msg"
  then show t: "trace (checkSMSBalance cfg inp w) =
                  trace (fetched inp w) @ [EvLog ERROR (CheckFailed msg)]"
    by (simp add: checkSMSBalance_unfold log_msg_fields)
  show "effects (trace (checkSMSBalance cfg inp w)) =
        effects (trace w) @
          [EvSave ((persisted w)\<lparr>totalChecks := totalChecks (persisted w) + 1,
                                 lastCheckTime := Some (clockCheck inp)\<rparr>), EvFetch]"
    by (simp add: t effects_append effects_fetched counted_def)
  show "lastKnownBalance (persisted (checkSMSBalance cfg inp w)) = lastKnownBalance (persisted w)"
    using f by (simp add: persisted_checkSMSBalance counted_def split: option.split)
  show "monitoring cfg (inp # inps) w = monitoring cfg inps (checkSMSBalance cfg inp w)"
    by simp
qed

text \<open>
  The provider does not answer in the cycle after the first alert: the check is counted
  and stored, the failure is logged, and the next cycle of the list runs.
\<close>

theorem bookkeeping_before_fetch_witness:
  "writeError (worldWith
     \<lparr> lastNotificationTime = Some 1765810636500, consecutiveNotificationCount = 1,
       lastKnownBalance = Some (Num 650), lastCheckTime = Some 1765810635926,
       totalChecks = 1, totalNotifications = 1 \<rparr>) = None \<and>
   fetchResult
     \<lparr> clockCheck = 1765810935926, clockAlert = 1765810935930,
       fetchResult = FetchThrows ''Balance check failed: No response received'',
       sendResult = SendOk \<rparr> = FetchThrows ''Balance check failed: No response received'' \<and>
   trace (checkSMSBalance exampleConfig
     \<lparr> clockCheck = 1765810935926, clockAlert = 1765810935930,
       fetchResult = FetchThrows ''Balance check failed: No response received'',
       sendResult = SendOk \<rparr>
     (worldWith
       \<lparr> lastNotificationTime = Some 1765810636500, consecutiveNotificationCount = 1,
         lastKnownBalance = Some (Num 650), lastCheckTime = Some 1765810635926,
         totalChecks = 1, totalNotifications = 1 \<rparr>)) =
     [EvSave
        \<lparr> lastNotificationTime = Some 1765810636500, consecutiveNotificationCount = 1,
          lastKnownBalance = Some (Num 650), lastCheckTime = Some 1765810935926,
          totalChecks = 2, totalNotifications = 1 \<rparr>,
      EvFetch,
      EvLog ERROR (CheckFailed ''Balance check failed: No response received'')] \<and>
   persisted (checkSMSBalance exampleConfig
     \<lparr> clockCheck = 1765810935926, clockAlert = 1765810935930,
       fetchResult = FetchThrows ''Balance check failed: No response received'',
       sendResult = SendOk \<rparr>
     (worldWith
       \<lparr> lastNotificationTime = Some 1765810636500, consecutiveNotificationCount = 1,
         lastKnownBalance = Some (Num 650), lastCheckTime = Some 1765810635926,
         totalChecks = 1, totalNotifications = 1 \<rparr>)) =
     \<lparr> lastNotificationTime = Some 1765810636500, consecutiveNotificationCount = 1,
       lastKnownBalance = Some (Num 650), lastCheckTime = Some 1765810935926,
       totalChecks = 2, totalNotifications = 1 \<rparr>"
  using bookkeeping_before_fetch
    [of exampleConfig
        "\<lparr> clockCheck = 1765810935926, clockAlert = 1765810935930,
           fetchResult = FetchThrows ''Balance check failed: No response received'',
           sendResult = SendOk \<rparr>"
        "worldWith
          \<lparr> lastNotificationTime = Some 1765810636500, consecutiveNotificationCount = 1,
            lastKnownBalance = Some (Num 650), lastCheckTime = Some 1765810635926,
            totalChecks = 1, totalNotifications = 1 \<rparr>"
        "[]"]
  by (simp add: example_defs cycle_defs fetched_def counted_def)

subsection \<open>C9: the state survives the state file\<close>

text \<open>
  C9: for every state \<open>s\<close>, the decision on the state that \<^verbatim>\<open>JSON.stringify\<close> and
  the merge with the defaults give back is the decision on \<open>s\<close>, for every time, balance
  and configuration, and so is the decision on the state that \<^verbatim>\<open>loadState\<close> returns
  after \<^verbatim>\<open>saveState(s)\<close> when the file can be written. The state itself comes back
  unchanged unless its \<open>lastKnownBalance\<close> is \<^verbatim>\<open>NaN\<close>, which comes back as
  \<^verbatim>\<open>null\<close>; both make the balance-change test false.
\<close>

theorem state_round_trip:
  "decide cfg now balance (merge_defaults (stringify s)) w0 = decide cfg now balance s w0 \<and>
   (lastKnownBalance s \<noteq> Some NaN \<longrightarrow> merge_defaults (stringify s) = s) \<and>
   (writeError w = None \<longrightarrow>
      decide cfg now balance (fst (loadState (saveState s w))) w0 = decide cfg now balance s w0 \<and>
      (lastKnownBalance s \<noteq> Some NaN \<longrightarrow> fst (loadState (saveState s w)) = s))"
proof -
  have d: "decide cfg now balance (merge_defaults (stringify s)) w0 = decide cfg now balance s w0"
    by (cases "lastKnownBalance s" rule: option.exhaust; cases "the (lastKnownBalance s)")
       (simp_all add: merge_defaults_stringify jsonNumber_simps decide_def
          shouldSendNotification_def getSkipReason_def toJsnum_def Let_def)
  have l: "fst (loadState (saveState s w)) = merge_defaults (stringify s)" if "writeError w = None"
    using that by (simp add: loadState_fields persisted_saveState merge_defaults_stringify)
  show ?thesis
    using d l by (simp add: merge_defaults_stringify_finite)
qed

text \<open>
  A state saved over a missing file and loaded again; thirty-five minutes after its
  notification a balance that moved from 640 to 620 is notified.
\<close>

theorem state_round_trip_witness:
  "writeError freshWorld = None \<and>
   fst (loadState (saveState
      \<lparr> lastNotificationTime = Some 1765810635926, consecutiveNotificationCount = 1,
        lastKnownBalance = Some (Num 640), lastCheckTime = Some 1765812435926,
        totalChecks = 8, totalNotifications = 1 \<rparr> freshWorld)) =
      \<lparr> lastNotificationTime = Some 1765810635926, consecutiveNotificationCount = 1,
        lastKnownBalance = Some (Num 640), lastCheckTime = Some 1765812435926,
        totalChecks = 8, totalNotifications = 1 \<rparr> \<and>
   decide exampleConfig 1765812735926 (Num 620)
     (fst (loadState (saveState
      \<lparr> lastNotificationTime = Some 1765810635926, consecutiveNotificationCount = 1,
        lastKnownBalance = Some (Num 640), lastCheckTime = Some 1765812435926,
        totalChecks = 8, totalNotifications = 1 \<rparr> freshWorld))) freshWorld = Send"
proof -
  have h: "writeError freshWorld = None"
    by (simp add: freshWorld_def)
  show ?thesis
    using h state_round_trip [of exampleConfig 1765812735926 "Num 620"
      "\<lparr> lastNotificationTime = Some 1765810635926, consecutiveNotificationCount = 1,
        lastKnownBalance = Some (Num 640), lastCheckTime = Some 1765812435926,
        totalChecks = 8, totalNotifications = 1 \<rparr>" freshWorld freshWorld]
    by (simp add: example_defs cycle_defs)
qed

subsection \<open>C10: a skip always has a reason\<close>

text \<open>
  C10: whenever \<^verbatim>\<open>shouldSendNotification\<close> answers false for a balance at or below
  the threshold, \<^verbatim>\<open>getSkipReason\<close> on the same arguments and the state it leaves
  returns neither \<^verbatim>\<open>Unknown\<close> nor \<^verbatim>\<open>Unknown (should not happen)\<close>: it is the reason
  for the maximum, for the cooldown or for the small change of balance.
\<close>

theorem skip_reason_is_concrete:
  assumes "js_le balance (ofInt (threshold cfg))"
    and "shouldSendNotification cfg now balance s w = (False, s', w')"
  shows "getSkipReason cfg now balance s' \<noteq> ''Unknown'' \<and>
         getSkipReason cfg now balance s' \<noteq> ''Unknown (should not happen)'' \<and>
         (getSkipReason cfg now balance s' =
            ''Max consecutive notifications reached ('' @
              numberToString (maxConsecutiveNotifications cfg) @ '')'' \<or>
          (\<exists>n. getSkipReason cfg now balance s' =
            ''Within cooldown period ('' @ numberToString n @ '' minutes remaining)'') \<or>
          getSkipReason cfg now balance s' =
            ''Balance change too small (< '' @
              numberToString (balanceChangeThreshold cfg) @ '' units)'')"
  using assms
  by (auto simp add: shouldSendNotification_def getSkipReason_def Let_def js_le_not_gt
      split: if_splits)

text \<open>
  Thirty-five minutes after an alert at balance 640, a balance of 645 is skipped: the
  change of 5 is below 10.
\<close>

theorem skip_reason_is_concrete_witness:
  "js_le (Num 645) (ofInt (threshold exampleConfig)) \<and>
   shouldSendNotification exampleConfig 1765812735926 (Num 645)
      \<lparr> lastNotificationTime = Some 1765810635926, consecutiveNotificationCount = 1,
        lastKnownBalance = Some (Num 640), lastCheckTime = Some 1765812435926,
        totalChecks = 8, totalNotifications = 1 \<rparr>
      freshWorld =
     (False,
      \<lparr> lastNotificationTime = Some 1765810635926, consecutiveNotificationCount = 1,
        lastKnownBalance = Some (Num 640), lastCheckTime = Some 1765812435926,
        totalChecks = 8, totalNotifications = 1 \<rparr>,
      freshWorld) \<and>
   getSkipReason exampleConfig 1765812735926 (Num 645)
      \<lparr> lastNotificationTime = Some 1765810635926, consecutiveNotificationCount = 1,
        lastKnownBalance = Some (Num 640), lastCheckTime = Some 1765812435926,
        totalChecks = 8, totalNotifications = 1 \<rparr>
     = ''Balance change too small (< 10 units)''"
proof -
  have b: "js_le (Num 645) (ofInt (threshold exampleConfig))"
    by (simp add: example_defs)
  have d: "shouldSendNotification exampleConfig 1765812735926 (Num 645)
      \<lparr> lastNotificationTime = Some 1765810635926, consecutiveNotificationCount = 1,
        lastKnownBalance = Some (Num 640), lastCheckTime = Some 1765812435926,
        totalChecks = 8, totalNotifications = 1 \<rparr>
      freshWorld =
     (False,
      \<lparr> lastNotificationTime = Some 1765810635926, consecutiveNotificationCount = 1,
        lastKnownBalance = Some (Num 640), lastCheckTime = Some 1765812435926,
        totalChecks = 8, totalNotifications = 1 \<rparr>,
      freshWorld)"
    by (simp add: example_defs cycle_defs)
  show ?thesis
    using b d skip_reason_is_concrete [OF b d]
    by (simp add: example_defs cycle_defs render_defs)
qed

end
